theory Spec2Isabelle
  imports Complex_Main "HOL-Library.AList"
begin

section \<open>Data model\<close>

text \<open>
  A Python \<open>str\<close> is a sequence of Unicode code points; transcripts and the Russian
  vocabulary are not ASCII, so a string is a list of code points. \<open>str\<close> embeds an
  ASCII literal. Python floats are modelled as reals (exact arithmetic), Python ints as
  \<open>int\<close>: comparisons and thresholds are those of the code, the rounding of each float
  operation to the nearest double is not modelled. A division of the code is
  \<open>py_truediv\<close>, which raises \<open>ZeroDivisionError\<close> on a zero divisor.
\<close>

type_synonym pystr = "nat list"

definition str :: "string \<Rightarrow> pystr" where
  "str s = map of_char s"

datatype py_error = ZeroDivisionError | IndexError | ValueError

text \<open>
  The library calls whose results the analysis consumes. They are not part of the
  repository, so they are parameters of the model:
  \<^item> \<open>word_char\<close>: membership in the class \<open>\w\<close> of the \<open>re\<close> module;
  \<^item> \<open>str_lower\<close>: \<open>str.lower\<close>;
  \<^item> \<open>sent_tokenize\<close>: \<open>nltk.tokenize.sent_tokenize(text, language)\<close>;
  \<^item> \<open>piptrack\<close>: \<open>librosa.piptrack(y, sr, fmin=75, fmax=350)\<close>, given frame by frame
    (one list per column of the two returned matrices) as the (pitch, magnitude) pairs of
    the frequency bins;
  \<^item> \<open>harmonic\<close>: \<open>librosa.effects.harmonic\<close>.
\<close>

record env =
  word_char :: "nat \<Rightarrow> bool"
  str_lower :: "pystr \<Rightarrow> pystr"
  sent_tokenize :: "pystr \<Rightarrow> pystr \<Rightarrow> pystr list"
  piptrack :: "real list \<Rightarrow> int \<Rightarrow> (real \<times> real) list list"
  harmonic :: "real list \<Rightarrow> real list"

section \<open>Constants (bot.py, utils.py)\<close>

definition FILLERS_EN :: "pystr list" where
  "FILLERS_EN = map str
    [''um'', ''uh'', ''like'', ''you know'', ''basically'', ''actually'', ''literally'',
     ''sort of'', ''kind of'', ''i mean'', ''right'', ''okay'', ''well'', ''so'', ''anyway'',
     ''honestly'', ''seriously'', ''obviously'', ''definitely'', ''totally'', ''really'',
     ''just'', ''maybe'', ''perhaps'', ''probably'', ''essentially'', ''practically'',
     ''virtually'', ''generally'', ''apparently'', ''supposedly'', ''presumably'',
     ''allegedly'', ''hmm'', ''err'', ''ah'', ''oh'', ''yeah'', ''yep'', ''nah'']"

text \<open>The Russian vocabulary, entry by entry in the order of utils.py, as code points.\<close>

definition FILLERS_RU :: "pystr list" where
  "FILLERS_RU =
    [[1085, 1091],
     [1090, 1080, 1087, 1072],
     [1082, 1086, 1088, 1086, 1095, 1077],
     [1074, 32, 1086, 1073, 1097, 1077, 1084],
     [1082, 1072, 1082, 32, 1073, 1099],
     [1079, 1085, 1072, 1095, 1080, 1090],
     [1087, 1086, 1085, 1080, 1084, 1072, 1077, 1096, 1100],
     [1074, 1088, 1086, 1076, 1077],
     [1089, 1086, 1073, 1089, 1090, 1074, 1077, 1085, 1085, 1086],
     [1101, 1090, 1086, 32, 1089, 1072, 1084, 1086, 1077],
     [1074, 1086, 1086, 1073, 1097, 1077],
     [1077, 1097, 1105],
     [1087, 1088, 1086, 1089, 1090, 1086],
     [1085, 1072, 1087, 1088, 1080, 1084, 1077, 1088],
     [1103, 32, 1076, 1091, 1084, 1072, 1102],
     [1079, 1085, 1072, 1077, 1096, 1100],
     [1083, 1072, 1076, 1085, 1086],
     [1074, 1086, 1090],
     [1090, 1072, 1082, 32, 1089, 1082, 1072, 1079, 1072, 1090, 1100],
     [1089, 1088, 1072, 1079, 1091],
     [1082, 1072, 1078, 1077, 1090, 1089, 1103],
     [1090, 1072, 1082],
     [1101, 1093],
     [1082, 1086, 1088, 1086, 1095, 1077, 32, 1075, 1086, 1074, 1086, 1088, 1103],
     [1084, 1077, 1078, 1076, 1091, 32, 1087, 1088, 1086, 1095, 1080, 1084],
     [1087, 1086, 32, 1089, 1091, 1090, 1080],
     [1082, 1072, 1082, 32, 1087, 1088, 1072, 1074, 1080, 1083, 1086],
     [1074, 32, 1080, 1090, 1086, 1075, 1077],
     [1074, 32, 1087, 1088, 1080, 1085, 1094, 1080, 1087, 1077],
     [1095, 1077, 1089, 1090, 1085, 1086, 32, 1075, 1086, 1074, 1086, 1088, 1103],
     [1085, 1072, 32, 1089, 1072, 1084, 1086, 1084, 32, 1076, 1077, 1083, 1077],
     [1087, 1088, 1103, 1084, 1086],
     [1085, 1091, 32, 1074, 1086, 1090],
     [1082, 1089, 1090, 1072, 1090, 1080],
     [1087, 1088, 1080, 32, 1101, 1090, 1086, 1084],
     [1077, 1089, 1083, 1080, 32, 1095, 1077, 1089, 1090, 1085, 1086],
     [1082, 1072, 1082, 32, 1085, 1080, 32, 1089, 1090, 1088, 1072, 1085, 1085, 1086],
     [1087, 1086, 1078, 1072, 1083, 1091, 1081],
     [1090, 1080, 1087, 1072, 32, 1090, 1086, 1075, 1086],
     [1090, 1072, 1082, 32, 1074, 1086, 1090],
     [1074, 32, 1086, 1073, 1097, 1077, 1084, 45, 1090, 1086],
     [1089, 1080, 1083, 1100, 1085, 1086],
     [1087, 1086, 1078, 1072, 1083, 1091, 1081, 1089, 1090, 1072],
     [1101, 1101, 1101],
     [1101, 1084, 1084],
     [1084, 1084, 1084],
     [1072, 1093],
     [1086, 1081],
     [1091, 1075, 1091],
     [1101, 1101, 8230],
     [1101, 1084, 1084, 8230],
     [1084, 1084, 8230],
     [1072, 1093, 8230],
     [1086, 1093],
     [1101, 1093, 8230],
     [1084, 1084, 45, 1093, 1084],
     [1072, 1072, 1072]]"

definition OPTIMAL_WPM_MIN :: int where
  "OPTIMAL_WPM_MIN = 120"

definition OPTIMAL_WPM_MAX :: int where
  "OPTIMAL_WPM_MAX = 150"

text \<open>The Russian labels of \<open>analyze_speech\<close> and \<open>analyze_prosody\<close>, as code points.\<close>

definition ru_optimal :: pystr where
  "ru_optimal = [1086, 1087, 1090, 1080, 1084, 1072, 1083, 1100, 1085, 1099, 1081]"

definition ru_too_slow :: pystr where
  "ru_too_slow = [1089, 1083, 1080, 1096, 1082, 1086, 1084, 32, 1084, 1077, 1076, 1083,
     1077, 1085, 1085, 1099, 1081]"

definition ru_too_fast :: pystr where
  "ru_too_fast = [1089, 1083, 1080, 1096, 1082, 1086, 1084, 32, 1073, 1099, 1089, 1090,
     1088, 1099, 1081]"

definition ru_lively :: pystr where
  "ru_lively = [1086, 1095, 1077, 1085, 1100, 32, 1085, 1080, 1079, 1082, 1072, 1103, 32,
     40, 1078, 1080, 1074, 1086, 1077, 32, 1079, 1074, 1091, 1095, 1072, 1085, 1080, 1077,
     41]"

definition ru_moderate :: pystr where
  "ru_moderate = [1091, 1084, 1077, 1088, 1077, 1085, 1085, 1072, 1103]"

definition ru_monotonous :: pystr where
  "ru_monotonous = [1074, 1099, 1089, 1086, 1082, 1072, 1103, 32, 40, 1084, 1086, 1085,
     1086, 1090, 1086, 1085, 1085, 1086, 41]"

definition ru_pronounced :: pystr where
  "ru_pronounced = [1103, 1088, 1082, 1086, 32, 1074, 1099, 1088, 1072, 1078, 1077, 1085,
     1085, 1072, 1103, 32, 1076, 1080, 1085, 1072, 1084, 1080, 1082, 1072]"

definition ru_medium :: pystr where
  "ru_medium = [1089, 1088, 1077, 1076, 1085, 1103, 1103, 32, 1076, 1080, 1085, 1072,
     1084, 1080, 1082, 1072]"

definition ru_flat :: pystr where
  "ru_flat = [1087, 1083, 1086, 1089, 1082, 1072, 1103, 32, 40, 1087, 1086, 1095, 1090,
     1080, 32, 1085, 1077, 1090, 32, 1080, 1079, 1084, 1077, 1085, 1077, 1085, 1080, 1081,
     32, 1075, 1088, 1086, 1084, 1082, 1086, 1089, 1090, 1080, 41]"

section \<open>Python and numpy primitives\<close>

text \<open>\<open>a / b\<close> on floats: division by zero raises.\<close>

definition py_truediv :: "real \<Rightarrow> real \<Rightarrow> py_error + real" where
  "py_truediv a b = (if b = 0 then Inl ZeroDivisionError else Inr (a / b))"

text \<open>
  \<open>round(x, n)\<close>: the nearest multiple of \<open>10^-n\<close> of the value of \<open>x\<close>, a tie going to
  the even multiple. Python rounds the value of the double it is given; here the argument
  is the exact real, so where the exact value is a decimal tie that no double represents
  (2.675, say) the code, holding the double next to it, rounds to the other neighbour. The
  properties below use of \<open>py_round\<close> only that it keeps 0 and the sign.
\<close>

definition py_round :: "real \<Rightarrow> nat \<Rightarrow> real" where
  "py_round x n =
     (let s = x * 10 ^ n; f = \<lfloor>s\<rfloor>; r = s - of_int f
      in (if r < 1 / 2 then of_int f
          else if 1 / 2 < r then of_int (f + 1)
          else if even f then of_int f else of_int (f + 1)) / 10 ^ n)"

text \<open>
  \<open>re.findall(r"\b\w+\b", s)\<close>: the maximal runs of word characters of \<open>s\<close>, left to
  right. \<open>runs_of p cur s\<close> scans \<open>s\<close> with the run \<open>cur\<close> open.
\<close>

fun runs_of :: "('c \<Rightarrow> bool) \<Rightarrow> 'c list \<Rightarrow> 'c list \<Rightarrow> 'c list list" where
  "runs_of p cur [] = (if cur = [] then [] else [cur])"
| "runs_of p cur (c # cs) =
     (if p c then runs_of p (cur @ [c]) cs
      else (if cur = [] then [] else [cur]) @ runs_of p [] cs)"

definition findall_words :: "env \<Rightarrow> pystr \<Rightarrow> pystr list" where
  "findall_words E s = runs_of (word_char E) [] s"

text \<open>
  \<open>str.split()\<close> without arguments: the maximal runs of non-whitespace characters.
  \<open>py_isspace\<close> lists the code points for which \<open>str.isspace\<close> holds.
\<close>

definition py_isspace :: "nat \<Rightarrow> bool" where
  "py_isspace c \<longleftrightarrow>
     (9 \<le> c \<and> c \<le> 13) \<or> (28 \<le> c \<and> c \<le> 32) \<or> c = 133 \<or> c = 160 \<or> c = 5760 \<or>
     (8192 \<le> c \<and> c \<le> 8202) \<or> c = 8232 \<or> c = 8233 \<or> c = 8239 \<or> c = 8287 \<or> c = 12288"

definition py_split :: "pystr \<Rightarrow> pystr list" where
  "py_split s = runs_of (\<lambda>c. \<not> py_isspace c) [] s"

text \<open>\<open>d.get(k, 0)\<close> on a dictionary kept as an association list in insertion order.\<close>

definition dict_get0 :: "('k \<times> int) list \<Rightarrow> 'k \<Rightarrow> int" where
  "dict_get0 d k = (case map_of d k of None \<Rightarrow> 0 | Some c \<Rightarrow> c)"

text \<open>\<open>np.mean\<close> and \<open>np.std\<close> (population standard deviation) of a one-dimensional array.\<close>

definition np_mean :: "real list \<Rightarrow> real" where
  "np_mean xs = sum_list xs / real (length xs)"

definition np_std :: "real list \<Rightarrow> real" where
  "np_std xs = sqrt (np_mean (map (\<lambda>x. \<bar>x - np_mean xs\<bar> ^ 2) xs))"

text \<open>
  \<open>np.percentile(a, q)\<close> with the default linear interpolation: on the sorted array, the
  value at the virtual index \<open>q / 100 * (n - 1)\<close>, interpolated between its two
  neighbours. An empty array raises \<open>IndexError\<close>, a \<open>q\<close> above 100 \<open>ValueError\<close>.
\<close>

definition np_percentile :: "real list \<Rightarrow> nat \<Rightarrow> py_error + real" where
  "np_percentile a q =
     (if 100 < q then Inl ValueError
      else if a = [] then Inl IndexError
      else
        let s = sort a; n = length a;
            pos = q * (n - 1);
            lo = pos div 100;
            hi = min (lo + 1) (n - 1);
            g = real (pos mod 100) / 100
        in Inr (s ! lo + (s ! hi - s ! lo) * g))"

text \<open>
  \<open>librosa.feature.rms(y=y, frame_length=2048, hop_length=512)[0]\<close> with the library's
  defaults (\<open>center=True\<close>, \<open>pad_mode="constant"\<close>): the signal is padded with 1024 zeros on
  each side and cut into frames of 2048 samples every 512 samples; each frame gives the
  square root of the mean of its squared samples. There are \<open>1 + len(y) // 512\<close> frames.
\<close>

definition frame_power :: "real list \<Rightarrow> real" where
  "frame_power xs = sum_list (map (\<lambda>x. \<bar>x\<bar> ^ 2) xs) / real (length xs)"

definition rms :: "real list \<Rightarrow> real list" where
  "rms y =
     (let padded = replicate 1024 0 @ y @ replicate 1024 0;
          n_frames = 1 + (length padded - 2048) div 512
      in map (\<lambda>t. sqrt (frame_power (take 2048 (drop (512 * t) padded)))) [0..<n_frames])"

text \<open>\<open>a.argmax()\<close>: the first index of the maximum; an empty array raises \<open>ValueError\<close>.\<close>

fun argmax_from :: "nat \<Rightarrow> nat \<Rightarrow> real \<Rightarrow> real list \<Rightarrow> nat" where
  "argmax_from i best v [] = best"
| "argmax_from i best v (x # xs) =
     (if v < x then argmax_from (i + 1) i x xs else argmax_from (i + 1) best v xs)"

definition argmax :: "real list \<Rightarrow> py_error + nat" where
  "argmax xs = (case xs of [] \<Rightarrow> Inl ValueError | x # xs' \<Rightarrow> Inr (argmax_from 1 0 x xs'))"

section \<open>The analysis functions of bot.py\<close>

record ProsodyProfile =
  pitch_mean :: real
  pitch_variance :: real
  monotony :: pystr
  energy_variance :: real
  energy_mean :: real
  energy_rating :: pystr

record SpeechMetrics =
  duration_sec :: real
  word_count :: int
  words_per_minute :: real
  tempo_rating :: pystr
  short_pauses :: int
  long_pauses :: int
  fillers_count :: int
  filler_details :: "(pystr \<times> int) list"
  prosody :: ProsodyProfile

record TextStructureReport =
  sentence_count :: int
  avg_sentence_length :: real
  long_sentences :: "pystr list"
  repetitions :: "(pystr \<times> int) list"

record HistoryEntry =
  h_date :: pystr
  h_wpm :: real
  h_fillers :: int
  h_duration :: real

record UserStats =
  total_analyses :: int
  total_wpm :: real
  total_fillers :: int
  last_analysis_date :: "pystr option"
  analyses_history :: "HistoryEntry list"

subsection \<open>count_fillers\<close>

text \<open>
  The loop body of \<open>count_fillers\<close>: \<open>filler_details[w] = filler_details.get(w, 0) + 1\<close>
  for a token of the vocabulary. A dictionary keeps its keys in insertion order, which
  \<open>AList.update\<close> does as well.
\<close>

definition filler_step :: "pystr set \<Rightarrow> (pystr \<times> int) list \<Rightarrow> pystr \<Rightarrow> (pystr \<times> int) list" where
  "filler_step fillers d w =
     (if w \<in> fillers then AList.update w (dict_get0 d w + 1) d else d)"

definition count_fillers :: "env \<Rightarrow> pystr \<Rightarrow> pystr \<Rightarrow> int \<times> (pystr \<times> int) list" where
  "count_fillers E text lang =
     (let fillers = set (if lang = str ''ru'' then FILLERS_RU else FILLERS_EN);
          words = findall_words E (str_lower E text);
          filler_details = foldl (filler_step fillers) [] words;
          total_count = sum_list (map snd filler_details)
      in (total_count, filler_details))"

subsection \<open>analyze_prosody\<close>

text \<open>
  The loop over the frames of the pitch track: the pitch of the bin of greatest magnitude,
  kept when it is positive.
\<close>

fun select_pitch :: "(real \<times> real) list list \<Rightarrow> py_error + real list" where
  "select_pitch [] = Inr []"
| "select_pitch (col # cols) =
     (case argmax (map snd col) of
        Inl e \<Rightarrow> Inl e
      | Inr idx \<Rightarrow>
          (let val = fst (col ! idx)
           in case select_pitch cols of
                Inl e \<Rightarrow> Inl e
              | Inr rest \<Rightarrow> Inr (if 0 < val then val # rest else rest)))"

definition monotony_label :: "pystr \<Rightarrow> real \<Rightarrow> pystr" where
  "monotony_label lang pitch_var =
     (if lang = str ''en'' then
        (if 60 < pitch_var then str ''very low (lively sound)''
         else if 30 < pitch_var then str ''moderate''
         else str ''high (monotonous)'')
      else
        (if 60 < pitch_var then ru_lively
         else if 30 < pitch_var then ru_moderate
         else ru_monotonous))"

definition dynamics_label :: "pystr \<Rightarrow> real \<Rightarrow> pystr" where
  "dynamics_label lang energy_var =
     (if lang = str ''en'' then
        (if 3 / 100 < energy_var then str ''pronounced dynamics''
         else if 15 / 1000 < energy_var then str ''medium dynamics''
         else str ''flat (almost no volume changes)'')
      else
        (if 3 / 100 < energy_var then ru_pronounced
         else if 15 / 1000 < energy_var then ru_medium
         else ru_flat))"

text \<open>The two statistics of the pitch track that \<open>analyze_prosody\<close> classifies and reports.\<close>

definition pitch_track :: "env \<Rightarrow> real list \<Rightarrow> int \<Rightarrow> py_error + real list" where
  "pitch_track E y sr =
     (case select_pitch (piptrack E y sr) of
        Inl e \<Rightarrow> Inl e
      | Inr pitch \<Rightarrow> Inr (if 10 < length pitch then harmonic E pitch else pitch))"

definition analyze_prosody :: "env \<Rightarrow> real list \<Rightarrow> int \<Rightarrow> pystr \<Rightarrow> py_error + ProsodyProfile" where
  "analyze_prosody E y sr lang =
     (case pitch_track E y sr of
        Inl e \<Rightarrow> Inl e
      | Inr pitch \<Rightarrow>
          (let pitch_var = (if 1 < length pitch then np_std pitch else 0);
               p_mean = (if 1 < length pitch then np_mean pitch else 0);
               energy = rms y;
               energy_var = np_std energy;
               e_mean = np_mean energy
           in Inr \<lparr> pitch_mean = py_round p_mean 1,
                    pitch_variance = py_round pitch_var 1,
                    monotony = monotony_label lang pitch_var,
                    energy_variance = py_round energy_var 4,
                    energy_mean = py_round e_mean 4,
                    energy_rating = dynamics_label lang energy_var \<rparr>))"

subsection \<open>detect_pauses\<close>

text \<open>
  The loop over \<open>silence_frames[1:]\<close>, with the variables \<open>start\<close>, \<open>prev\<close> and \<open>pauses\<close> it
  updates; it returns their final values.
\<close>

fun pause_loop :: "real \<Rightarrow> int \<Rightarrow> int \<Rightarrow> real list \<Rightarrow> int list \<Rightarrow> int \<times> int \<times> real list" where
  "pause_loop frame_duration start prev pauses [] = (start, prev, pauses)"
| "pause_loop frame_duration start prev pauses (f # fs) =
     (if 1 < f - prev then
        (let duration = of_int (prev - start) * frame_duration;
             pauses' = (if 25 / 100 < duration then pauses @ [duration] else pauses)
         in pause_loop frame_duration f f pauses' fs)
      else pause_loop frame_duration start f pauses fs)"

text \<open>\<open>np.where(energy < threshold)[0]\<close>: the indices of the frames below the threshold.\<close>

definition silence_frames :: "real list \<Rightarrow> real \<Rightarrow> int list" where
  "silence_frames energy threshold =
     map int (filter (\<lambda>i. energy ! i < threshold) [0..<length energy])"

text \<open>The body of \<open>detect_pauses\<close> from the frame energies on.\<close>

definition pauses_of_energy :: "real list \<Rightarrow> real \<Rightarrow> py_error + real list" where
  "pauses_of_energy energy frame_duration =
     (case np_percentile energy 15 of
        Inl e \<Rightarrow> Inl e
      | Inr threshold \<Rightarrow>
          (case silence_frames energy threshold of
             [] \<Rightarrow> Inr []
           | s0 # rest \<Rightarrow>
               (case pause_loop frame_duration s0 s0 [] rest of
                  (start, prev, pauses) \<Rightarrow>
                    (let duration = of_int (prev - start) * frame_duration
                     in Inr (if 25 / 100 < duration then pauses @ [duration] else pauses)))))"

definition detect_pauses :: "real list \<Rightarrow> int \<Rightarrow> py_error + real list" where
  "detect_pauses y sr =
     (if sr = 0 then Inl ZeroDivisionError
      else pauses_of_energy (rms y) (512 / of_int sr))"

subsection \<open>analyze_speech\<close>

text \<open>\<open>librosa.get_duration(y=y, sr=sr)\<close>: the number of samples over the sample rate.\<close>

definition get_duration :: "real list \<Rightarrow> int \<Rightarrow> real" where
  "get_duration y sr = real (length y) / of_int sr"

text \<open>
  The line \<open>wpm = len(words) / (duration / 60) if duration > 0 else 0\<close>:
  \<open>wpm_quotient\<close> is the quotient, which raises when the duration is 0, and
  \<open>compute_wpm\<close> the guarded expression.
\<close>

definition wpm_quotient :: "pystr list \<Rightarrow> real \<Rightarrow> py_error + real" where
  "wpm_quotient words duration =
     (case py_truediv duration 60 of
        Inl e \<Rightarrow> Inl e
      | Inr minutes \<Rightarrow> py_truediv (real (length words)) minutes)"

definition compute_wpm :: "pystr list \<Rightarrow> real \<Rightarrow> py_error + real" where
  "compute_wpm words duration =
     (if 0 < duration then wpm_quotient words duration else Inr 0)"

definition tempo_label :: "pystr \<Rightarrow> real \<Rightarrow> pystr" where
  "tempo_label lang wpm =
     (if lang = str ''en'' then
        (if of_int OPTIMAL_WPM_MIN \<le> wpm \<and> wpm \<le> of_int OPTIMAL_WPM_MAX then str ''optimal''
         else if wpm < of_int OPTIMAL_WPM_MIN then str ''too slow''
         else str ''too fast'')
      else
        (if of_int OPTIMAL_WPM_MIN \<le> wpm \<and> wpm \<le> of_int OPTIMAL_WPM_MAX then ru_optimal
         else if wpm < of_int OPTIMAL_WPM_MIN then ru_too_slow
         else ru_too_fast))"

definition count_short :: "real list \<Rightarrow> int" where
  "count_short pauses = sum_list (map (\<lambda>p. 1) (filter (\<lambda>p. 3 / 10 \<le> p \<and> p \<le> 1) pauses))"

definition count_long :: "real list \<Rightarrow> int" where
  "count_long pauses = sum_list (map (\<lambda>p. 1) (filter (\<lambda>p. 15 / 10 < p) pauses))"

text \<open>
  \<open>analyze_speech\<close> after \<open>librosa.load(audio_path, sr=16000)\<close> has produced the
  waveform \<open>y\<close>; the sample rate is 16000.
\<close>

definition analyze_speech :: "env \<Rightarrow> real list \<Rightarrow> pystr \<Rightarrow> pystr \<Rightarrow> py_error + SpeechMetrics" where
  "analyze_speech E y text lang =
     (let sr = 16000;
          duration = get_duration y sr;
          words = findall_words E text
      in case compute_wpm words duration of
           Inl e \<Rightarrow> Inl e
         | Inr wpm \<Rightarrow>
             (let rating = tempo_label lang wpm
              in case detect_pauses y sr of
                   Inl e \<Rightarrow> Inl e
                 | Inr pauses \<Rightarrow>
                     (case count_fillers E text lang of
                        (n_fillers, details) \<Rightarrow>
                          (case analyze_prosody E y sr lang of
                             Inl e \<Rightarrow> Inl e
                           | Inr pros \<Rightarrow>
                               Inr \<lparr> duration_sec = py_round duration 2,
                                      word_count = int (length words),
                                      words_per_minute = py_round wpm 1,
                                      tempo_rating = rating,
                                      short_pauses = count_short pauses,
                                      long_pauses = count_long pauses,
                                      fillers_count = n_fillers,
                                      filler_details = details,
                                      prosody = pros \<rparr>))))"

subsection \<open>analyze_text_quality\<close>

definition repetition_step :: "(pystr \<times> int) list \<Rightarrow> pystr \<Rightarrow> (pystr \<times> int) list" where
  "repetition_step d w = (if 4 < length w then AList.update w (dict_get0 d w + 1) d else d)"

definition analyze_text_quality :: "env \<Rightarrow> pystr \<Rightarrow> pystr \<Rightarrow> TextStructureReport" where
  "analyze_text_quality E text lang =
     (let language = (if lang = str ''ru'' then str ''russian'' else str ''english'');
          sentences = sent_tokenize E text language;
          avg_sentence_len =
            (if sentences \<noteq> []
             then of_int (sum_list (map (\<lambda>s. int (length (py_split s))) sentences))
                    / real (length sentences)
             else 0);
          too_long = filter (\<lambda>s. 20 < length (py_split s)) sentences;
          words = findall_words E (str_lower E text);
          counted = foldl repetition_step [] words
      in \<lparr> sentence_count = int (length sentences),
            avg_sentence_length = avg_sentence_len,
            long_sentences = too_long,
            repetitions = filter (\<lambda>(w, c). 3 \<le> c) counted \<rparr>)"

subsection \<open>update_user_stats\<close>

text \<open>
  The global dictionary \<open>user_stats\<close> is a map from user identifiers to statistics; the
  function takes it and returns it updated. \<open>now\<close> is the formatted time
  \<open>datetime.now().strftime('%Y-%m-%d %H:%M')\<close>.
\<close>

definition update_user_stats ::
  "(int \<rightharpoonup> UserStats) \<Rightarrow> int \<Rightarrow> SpeechMetrics \<Rightarrow> pystr \<Rightarrow> (int \<rightharpoonup> UserStats)" where
  "update_user_stats user_stats user_id analysis now =
     (let stats0 = (case user_stats user_id of
                      None \<Rightarrow> \<lparr> total_analyses = 0, total_wpm = 0, total_fillers = 0,
                                 last_analysis_date = None, analyses_history = [] \<rparr>
                    | Some s \<Rightarrow> s);
          entry = \<lparr> h_date = now, h_wpm = words_per_minute analysis,
                    h_fillers = fillers_count analysis, h_duration = duration_sec analysis \<rparr>;
          history = analyses_history stats0 @ [entry];
          stats = \<lparr> total_analyses = total_analyses stats0 + 1,
                    total_wpm = total_wpm stats0 + words_per_minute analysis,
                    total_fillers = total_fillers stats0 + fillers_count analysis,
                    last_analysis_date = Some now,
                    analyses_history = (if 10 < length history then tl history else history) \<rparr>
      in user_stats(user_id \<mapsto> stats))"

section \<open>Notions of the specification\<close>

text \<open>
  The specification speaks of the maximal runs of consecutive silent frames, where a gap of
  more than one frame index breaks a run. \<open>group_runs cur fs\<close> cuts the indices \<open>fs\<close>
  into such runs, \<open>cur\<close> being the run that is open.
\<close>

fun group_runs :: "int list \<Rightarrow> int list \<Rightarrow> int list list" where
  "group_runs cur [] = [cur]"
| "group_runs cur (f # fs) =
     (if 1 < f - last cur then cur # group_runs [f] fs else group_runs (cur @ [f]) fs)"

definition frame_runs :: "int list \<Rightarrow> int list list" where
  "frame_runs fs = (case fs of [] \<Rightarrow> [] | f # fs' \<Rightarrow> group_runs [f] fs')"

text \<open>The runs of silent frames of an energy contour, under its 15th-percentile threshold.\<close>

definition silent_runs :: "real list \<Rightarrow> int list list" where
  "silent_runs energy =
     (case np_percentile energy 15 of
        Inl e \<Rightarrow> []
      | Inr threshold \<Rightarrow> frame_runs (silence_frames energy threshold))"

text \<open>
  The durations that the code derives from a list of runs: the distance from the first to
  the last frame of a run, times the frame duration, kept when above a quarter of a second.
\<close>

definition run_durations :: "real \<Rightarrow> int list list \<Rightarrow> real list" where
  "run_durations frame_duration rs =
     filter (\<lambda>d. 25 / 100 < d) (map (\<lambda>r. of_int (last r - hd r) * frame_duration) rs)"

text \<open>The three categories of each rating, as the label of the language.\<close>

definition optimal_label :: "pystr \<Rightarrow> pystr" where
  "optimal_label lang = (if lang = str ''en'' then str ''optimal'' else ru_optimal)"

definition slow_label :: "pystr \<Rightarrow> pystr" where
  "slow_label lang = (if lang = str ''en'' then str ''too slow'' else ru_too_slow)"

definition fast_label :: "pystr \<Rightarrow> pystr" where
  "fast_label lang = (if lang = str ''en'' then str ''too fast'' else ru_too_fast)"

definition lively_label :: "pystr \<Rightarrow> pystr" where
  "lively_label lang =
     (if lang = str ''en'' then str ''very low (lively sound)'' else ru_lively)"

definition moderate_label :: "pystr \<Rightarrow> pystr" where
  "moderate_label lang = (if lang = str ''en'' then str ''moderate'' else ru_moderate)"

definition monotonous_label :: "pystr \<Rightarrow> pystr" where
  "monotonous_label lang =
     (if lang = str ''en'' then str ''high (monotonous)'' else ru_monotonous)"

definition pronounced_label :: "pystr \<Rightarrow> pystr" where
  "pronounced_label lang =
     (if lang = str ''en'' then str ''pronounced dynamics'' else ru_pronounced)"

definition medium_label :: "pystr \<Rightarrow> pystr" where
  "medium_label lang = (if lang = str ''en'' then str ''medium dynamics'' else ru_medium)"

definition flat_label :: "pystr \<Rightarrow> pystr" where
  "flat_label lang =
     (if lang = str ''en'' then str ''flat (almost no volume changes)'' else ru_flat)"

section \<open>Concrete inputs\<close>

text \<open>
  An instance of the library parameters, for evaluating the model: word characters are
  the ASCII letters, digits and underscore and the letters of the Russian alphabet;
  lower-casing maps the capitals of both; the sentence splitter cuts after each full
  stop; the pitch track is given.
\<close>

definition demo_word_char :: "nat \<Rightarrow> bool" where
  "demo_word_char c \<longleftrightarrow>
     (48 \<le> c \<and> c \<le> 57) \<or> (65 \<le> c \<and> c \<le> 90) \<or> c = 95 \<or> (97 \<le> c \<and> c \<le> 122) \<or>
     (1040 \<le> c \<and> c \<le> 1103) \<or> c = 1025 \<or> c = 1105"

definition demo_lower :: "pystr \<Rightarrow> pystr" where
  "demo_lower s =
     map (\<lambda>c. if (65 \<le> c \<and> c \<le> 90) \<or> (1040 \<le> c \<and> c \<le> 1071) then c + 32
              else if c = 1025 then 1105 else c) s"

fun split_after_dot :: "pystr \<Rightarrow> pystr \<Rightarrow> pystr list" where
  "split_after_dot cur [] = (if cur = [] then [] else [cur])"
| "split_after_dot cur (c # cs) =
     (if c = 46 then (cur @ [c]) # split_after_dot [] cs
      else if c = 32 \<and> cur = [] then split_after_dot [] cs
      else split_after_dot (cur @ [c]) cs)"

definition demo_env :: "(real \<times> real) list list \<Rightarrow> env" where
  "demo_env track =
     \<lparr> word_char = demo_word_char, str_lower = demo_lower,
       sent_tokenize = (\<lambda>text language. split_after_dot [] text),
       piptrack = (\<lambda>y sr. track), harmonic = (\<lambda>pitch. pitch) \<rparr>"

text \<open>
  A waveform given by the amplitude of each block of 512 samples. \<open>demo_wave\<close> is 3.68
  seconds long: 17 silent blocks, then one block of full amplitude in every four. Its
  frame energies are sixteen times 0 and then a hundred times 1/2.
\<close>

definition blocks :: "real list \<Rightarrow> real list" where
  "blocks amps = concat (map (replicate 512) amps)"

definition demo_amps :: "real list" where
  "demo_amps = replicate 17 0 @ concat (replicate 24 [1, 0, 0, 0]) @ [1, 0]"

definition demo_wave :: "real list" where
  "demo_wave = blocks demo_amps"

definition demo_energy :: "real list" where
  "demo_energy = replicate 16 0 @ replicate 100 (1 / 2)"

definition demo_track :: "(real \<times> real) list list" where
  "demo_track = [[(100, 1), (220, 1 / 2)], [(80, 1 / 4), (160, 1)], [(0, 0)]]"

definition demo_text :: pystr where
  "demo_text = str ''Well, this is just a short test recording.''"

definition demo_metrics :: SpeechMetrics where
  "demo_metrics =
     \<lparr> duration_sec = 92 / 25, word_count = 8, words_per_minute = 652 / 5,
       tempo_rating = str ''optimal'', short_pauses = 1, long_pauses = 0,
       fillers_count = 2, filler_details = [(str ''well'', 1), (str ''just'', 1)],
       prosody = \<lparr> pitch_mean = 130, pitch_variance = 30,
                   monotony = str ''high (monotonous)'',
                   energy_variance = 431 / 2500, energy_mean = 431 / 1000,
                   energy_rating = str ''pronounced dynamics'' \<rparr> \<rparr>"

text \<open>The record of the same recording with an empty transcript.\<close>

definition demo_metrics_no_words :: SpeechMetrics where
  "demo_metrics_no_words =
     demo_metrics \<lparr> word_count := 0, words_per_minute := 0, tempo_rating := str ''too slow'',
       fillers_count := 0, filler_details := [] \<rparr>"

text \<open>Two sentences of 25 and of 20 words.\<close>

definition demo_long :: pystr where
  "demo_long = str (''one two three four five six seven eight nine ten '' @
     ''one two three four five six seven eight nine ten one two three four five.'')"

definition demo_twenty :: pystr where
  "demo_twenty = str (''one two three four five six seven eight nine ten '' @
     ''one two three four five six seven eight nine ten.'')"

text \<open>A store with one user, who has three analyses.\<close>

definition demo_stats :: UserStats where
  "demo_stats =
     \<lparr> total_analyses = 3, total_wpm = 390, total_fillers = 4,
       last_analysis_date = Some (str ''2025-01-01 10:00''), analyses_history = [] \<rparr>"

definition demo_store :: "int \<rightharpoonup> UserStats" where
  "demo_store = [7 \<mapsto> demo_stats]"

section \<open>The pause detector\<close>

subsection \<open>Frame energies\<close>

lemma length_rms: "length (rms y) = 1 + length y div 512"
  by (simp add: rms_def Let_def)

lemma rms_not_Nil: "rms y \<noteq> []"
  using length_rms [of y] by auto

lemma frame_power_zeros: "frame_power (replicate n 0) = 0"
  by (simp add: frame_power_def sum_list_replicate)

lemma rms_zeros: "rms (replicate n 0) = replicate (1 + n div 512) 0"
proof -
  have p: "replicate 1024 (0::real) @ replicate n 0 @ replicate 1024 0 = replicate (n + 2048) 0"
    by (simp add: replicate_add [symmetric])
  have "map (\<lambda>t. sqrt (frame_power (take 2048 (drop (512 * t) (replicate (n + 2048) (0::real))))))
          [0..<k] = replicate k 0" for k
    by (induction k) (simp_all add: frame_power_zeros replicate_append_same)
  then show ?thesis
    by (simp only: rms_def Let_def p length_replicate add_diff_cancel_right')
qed

subsection \<open>The threshold\<close>

lemma np_percentile_total: "a \<noteq> [] \<Longrightarrow> \<exists>t. np_percentile a 15 = Inr t"
  by (simp add: np_percentile_def Let_def)

lemma np_percentile_const: "0 < n \<Longrightarrow> np_percentile (replicate n e) 15 = Inr e"
  by (simp add: np_percentile_def Let_def)

lemma silence_frames_const: "silence_frames (replicate n e) e = []"
  by (simp add: silence_frames_def filter_empty_conv)

lemma pauses_of_energy_const: "0 < n \<Longrightarrow> pauses_of_energy (replicate n e) fd = Inr []"
  by (simp add: pauses_of_energy_def np_percentile_const silence_frames_const)

lemma const_list: "\<forall>e \<in> set xs. e = c \<Longrightarrow> xs = replicate (length xs) c"
  by (induction xs) simp_all

subsection \<open>The loop computes the runs\<close>

lemma pause_loop_runs:
  "cur \<noteq> [] \<Longrightarrow>
   (case pause_loop fd (hd cur) (last cur) pauses fs of
      (start, prev, ps) \<Rightarrow>
        (let duration = of_int (prev - start) * fd
         in if 25 / 100 < duration then ps @ [duration] else ps))
   = pauses @ run_durations fd (group_runs cur fs)"
proof (induction fs arbitrary: cur pauses)
  case Nil
  then show ?case by (simp add: run_durations_def)
next
  case (Cons f fs)
  show ?case
  proof (cases "1 < f - last cur")
    case True
    with Cons.IH [of "[f]"] show ?thesis
      by (simp add: run_durations_def Let_def)
  next
    case False
    with Cons.IH [of "cur @ [f]" pauses] Cons.prems show ?thesis
      by simp
  qed
qed

lemma pauses_of_energy_runs:
  assumes "energy \<noteq> []"
  shows "pauses_of_energy energy fd = Inr (run_durations fd (silent_runs energy))"
proof -
  from assms obtain thr where thr: "np_percentile energy 15 = Inr thr"
    using np_percentile_total by blast
  show ?thesis
  proof (cases "silence_frames energy thr")
    case Nil
    then show ?thesis
      by (simp add: pauses_of_energy_def silent_runs_def thr frame_runs_def run_durations_def)
  next
    case (Cons s0 rest)
    with pause_loop_runs [of "[s0]" fd "[]" rest] show ?thesis
      by (auto simp: pauses_of_energy_def silent_runs_def thr frame_runs_def Let_def
               split: prod.splits)
  qed
qed

lemma detect_pauses_runs:
  "sr \<noteq> 0 \<Longrightarrow> detect_pauses y sr = Inr (run_durations (512 / of_int sr) (silent_runs (rms y)))"
  by (simp add: detect_pauses_def pauses_of_energy_runs rms_not_Nil)

lemma detect_pauses_zero_rate: "detect_pauses y 0 = Inl ZeroDivisionError"
  by (simp add: detect_pauses_def)

subsection \<open>The runs are the maximal intervals of silent frames\<close>

lemma group_runs_concat: "concat (group_runs cur fs) = cur @ fs"
  by (induction fs arbitrary: cur) auto

lemma group_runs_hd: "cur \<noteq> [] \<Longrightarrow> group_runs cur fs \<noteq> [] \<and> hd (hd (group_runs cur fs)) = hd cur"
  by (induction fs arbitrary: cur) auto

lemma group_runs_gaps:
  "cur \<noteq> [] \<Longrightarrow> successively (\<lambda>r r'. 1 < hd r' - last r) (group_runs cur fs)"
proof (induction fs arbitrary: cur)
  case Nil
  then show ?case by simp
next
  case (Cons f fs)
  show ?case
  proof (cases "1 < f - last cur")
    case True
    have "group_runs [f] fs \<noteq> []" "hd (hd (group_runs [f] fs)) = f"
      using group_runs_hd [of "[f]" fs] by simp_all
    moreover have "successively (\<lambda>r r'. 1 < hd r' - last r) (group_runs [f] fs)"
      by (rule Cons.IH) simp
    ultimately show ?thesis using True by (simp add: successively_Cons)
  next
    case False
    with Cons.IH [of "cur @ [f]"] show ?thesis by simp
  qed
qed

lemma group_runs_intervals:
  "sorted_wrt (<) (cur @ fs) \<Longrightarrow> cur \<noteq> [] \<Longrightarrow> cur = [hd cur..last cur] \<Longrightarrow>
   r \<in> set (group_runs cur fs) \<Longrightarrow> r \<noteq> [] \<and> r = [hd r..last r]"
proof (induction fs arbitrary: cur)
  case Nil
  then show ?case by simp
next
  case (Cons f fs)
  show ?case
  proof (cases "1 < f - last cur")
    case True
    with Cons.prems have "r = cur \<or> r \<in> set (group_runs [f] fs)" by auto
    then show ?thesis
    proof
      assume "r = cur" with Cons.prems show ?thesis by simp
    next
      assume r: "r \<in> set (group_runs [f] fs)"
      have "sorted_wrt (<) ([f] @ fs)" using Cons.prems(1) by (simp add: sorted_wrt_append)
      from Cons.IH [OF this _ _ r] show ?thesis by simp
    qed
  next
    case False
    have "last cur \<in> set cur" using Cons.prems(2) by simp
    then have "last cur < f" using Cons.prems(1) by (auto simp: sorted_wrt_append)
    with False have f: "f = last cur + 1" by simp
    have le: "hd cur \<le> last cur"
      using Cons.prems(2,3) by (metis upto_Nil2 not_le)
    have "[hd cur..last cur + 1] = [hd cur..last cur] @ [last cur + 1]"
      using le by (simp add: upto_rec2)
    then have iv: "cur @ [f] = [hd (cur @ [f])..last (cur @ [f])]"
      using Cons.prems(2,3) f by simp
    have s: "sorted_wrt (<) ((cur @ [f]) @ fs)" using Cons.prems(1) by simp
    have r: "r \<in> set (group_runs (cur @ [f]) fs)" using Cons.prems(4) False by simp
    from Cons.IH [OF s _ iv r] show ?thesis by simp
  qed
qed

lemma sorted_silence_frames: "sorted_wrt (<) (silence_frames energy thr)"
  unfolding silence_frames_def
  by (simp add: sorted_wrt_map sorted_wrt_filter)

lemma frame_runs_intervals:
  assumes "r \<in> set (frame_runs (silence_frames energy thr))"
  shows "r \<noteq> [] \<and> r = [hd r..last r]"
proof (cases "silence_frames energy thr")
  case Nil
  with assms show ?thesis by (simp add: frame_runs_def)
next
  case (Cons f fs)
  then have s: "sorted_wrt (<) ([f] @ fs)" using sorted_silence_frames [of energy thr] by simp
  have r: "r \<in> set (group_runs [f] fs)" using assms Cons by (simp add: frame_runs_def)
  from group_runs_intervals [OF s _ _ r] show ?thesis by simp
qed

lemma frame_runs_concat: "concat (frame_runs fs) = fs"
  by (cases fs) (simp_all add: frame_runs_def group_runs_concat)

lemma frame_runs_gaps: "successively (\<lambda>r r'. 1 < hd r' - last r) (frame_runs fs)"
  by (cases fs) (simp_all add: frame_runs_def group_runs_gaps)

lemma run_span:
  assumes "r \<in> set (frame_runs (silence_frames energy thr))"
  shows "of_int (last r - hd r) = real (length r) - 1"
proof -
  from frame_runs_intervals [OF assms] have ne: "r \<noteq> []" and iv: "r = [hd r..last r]"
    by simp_all
  have le: "hd r \<le> last r" using ne iv by (metis upto_Nil2 not_le)
  have "length r = length [hd r..last r]" using iv by simp
  also have "\<dots> = nat (last r - hd r + 1)" by simp
  finally have "int (length r) = last r - hd r + 1" using le by simp
  then have "real_of_int (int (length r)) = real_of_int (last r - hd r + 1)" by simp
  then show ?thesis by simp
qed

lemma silent_run_span:
  assumes "r \<in> set (silent_runs energy)"
  shows "of_int (last r - hd r) = real (length r) - 1"
proof (cases "np_percentile energy 15")
  case (Inl e)
  with assms show ?thesis by (simp add: silent_runs_def)
next
  case (Inr thr)
  with assms have "r \<in> set (frame_runs (silence_frames energy thr))"
    by (simp add: silent_runs_def)
  then show ?thesis by (rule run_span)
qed

lemma run_durations_length:
  "run_durations (512 / of_int sr) (silent_runs energy) =
     filter (\<lambda>d. 25 / 100 < d)
       (map (\<lambda>r. (real (length r) - 1) * 512 / of_int sr) (silent_runs energy))"
proof -
  have "map (\<lambda>r. of_int (last r - hd r) * (512 / of_int sr)) (silent_runs energy)
      = map (\<lambda>r. (real (length r) - 1) * 512 / of_int sr) (silent_runs energy)"
  proof (rule map_cong)
    fix r assume "r \<in> set (silent_runs energy)"
    then have "real_of_int (last r - hd r) = real (length r) - 1" by (rule silent_run_span)
    then show "of_int (last r - hd r) * (512 / of_int sr) = (real (length r) - 1) * 512 / of_int sr"
      by (simp only: times_divide_eq_right)
  qed simp
  then show ?thesis by (simp only: run_durations_def)
qed

subsection \<open>How many frames are silent\<close>

lemma length_filter_index:
  "length (filter (\<lambda>i. P (xs ! i)) [0..<length xs]) = length (filter P xs)"
proof (induction xs rule: rev_induct)
  case Nil
  then show ?case by simp
next
  case (snoc x xs)
  have "filter (\<lambda>i. P ((xs @ [x]) ! i)) [0..<length xs]
      = filter (\<lambda>i. P (xs ! i)) [0..<length xs]"
    by (rule filter_cong) (auto simp: nth_append)
  with snoc show ?case by simp
qed

lemma length_silence_frames:
  "length (silence_frames energy thr) = length (filter (\<lambda>x. x < thr) energy)"
  unfolding silence_frames_def by (simp add: length_filter_index [of "\<lambda>x. x < thr"])

lemma length_filter_sort:
  "length (filter P (sort xs)) = length (filter P (xs :: real list))"
  by (simp add: filter_sort)

lemma sorted_count_below:
  assumes "sorted (s :: real list)" and "k < length s" and "thr \<le> s ! k"
  shows "length (filter (\<lambda>x. x < thr) s) \<le> k"
proof -
  have "\<forall>x \<in> set (drop k s). \<not> x < thr"
  proof
    fix x assume "x \<in> set (drop k s)"
    then obtain j where j: "j < length (drop k s)" "x = drop k s ! j"
      by (metis in_set_conv_nth)
    then have "x = s ! (k + j)" and "k + j < length s" by auto
    with assms(1) have "s ! k \<le> x" by (simp add: sorted_nth_mono)
    with assms(3) show "\<not> x < thr" by simp
  qed
  then have e: "filter (\<lambda>x. x < thr) (drop k s) = []" by (simp add: filter_empty_conv)
  have "filter (\<lambda>x. x < thr) s = filter (\<lambda>x. x < thr) (take k s @ drop k s)" by simp
  also have "\<dots> = filter (\<lambda>x. x < thr) (take k s)" unfolding filter_append e by simp
  finally have "length (filter (\<lambda>x. x < thr) s) \<le> length (take k s)"
    by (metis length_filter_le)
  then show ?thesis using assms(2) by simp
qed

lemma silent_count_bound:
  assumes "np_percentile energy 15 = Inr thr"
  shows "length (silence_frames energy thr) \<le> (15 * (length energy - 1) + 99) div 100"
proof -
  define n where "n = length energy"
  define s where "s = sort energy"
  define pos where "pos = 15 * (n - 1)"
  define lo where "lo = pos div 100"
  define hi where "hi = min (lo + 1) (n - 1)"
  define g where "g = real (pos mod 100) / 100"
  from assms have ne: "energy \<noteq> []"
    by (auto simp: np_percentile_def)
  with assms have thr: "thr = s ! lo + (s ! hi - s ! lo) * g"
    by (simp add: np_percentile_def Let_def n_def s_def pos_def lo_def hi_def g_def)
  have n: "0 < n" using ne by (simp add: n_def)
  have ls: "length s = n" and ss: "sorted s" by (simp_all add: s_def n_def)
  have lo: "lo < n" using n by (simp add: lo_def pos_def)
  have hi: "hi < n" "lo \<le> hi" "hi \<le> lo + 1" using n lo by (auto simp: hi_def)
  have cnt: "length (silence_frames energy thr) = length (filter (\<lambda>x. x < thr) s)"
    by (simp add: length_silence_frames s_def length_filter_sort)
  show ?thesis
  proof (cases "pos mod 100 = 0")
    case True
    then have "thr = s ! lo" by (simp add: thr g_def)
    with sorted_count_below [OF ss, of lo thr] lo ls
    have "length (filter (\<lambda>x. x < thr) s) \<le> lo" by simp
    moreover have "lo = (pos + 99) div 100"
    proof -
      from True obtain q where q: "pos = 100 * q" by (auto simp: mod_eq_0_iff_dvd)
      show ?thesis unfolding lo_def q by simp
    qed
    ultimately show ?thesis by (simp add: cnt pos_def n_def)
  next
    case False
    have g: "0 \<le> g" "g \<le> 1" by (simp_all add: g_def)
    have "s ! lo \<le> s ! hi" using ss hi ls by (simp add: sorted_nth_mono)
    then have "(s ! hi - s ! lo) * g \<le> (s ! hi - s ! lo)"
      using g by (simp add: mult_left_le)
    then have "thr \<le> s ! hi" by (simp add: thr)
    with sorted_count_below [OF ss, of hi thr] hi ls
    have "length (filter (\<lambda>x. x < thr) s) \<le> lo + 1" by simp
    moreover have "lo + 1 = (pos + 99) div 100"
    proof -
      define r where "r = pos mod 100"
      have r: "0 < r" "r < 100" using False by (simp_all add: r_def)
      have p: "pos = r + 100 * lo" by (simp add: r_def lo_def)
      have "(r + 99) div 100 = 1" using r by simp
      then have "(r + 99 + 100 * lo) div 100 = 1 + lo"
        by (simp only: div_mult_self2 [of 100 "r + 99" lo])
      then show ?thesis by (simp add: p add.commute add.left_commute)
    qed
    ultimately show ?thesis by (simp add: cnt pos_def n_def)
  qed
qed

subsection \<open>The frame energies of a waveform given by blocks\<close>

lemma blocks_Nil: "blocks [] = []"
  by (simp add: blocks_def)

lemma blocks_Cons: "blocks (a # as) = replicate 512 a @ blocks as"
  by (simp add: blocks_def)

lemma blocks_append: "blocks (as @ bs) = blocks as @ blocks bs"
  by (simp add: blocks_def)

lemma length_blocks: "length (blocks as) = 512 * length as"
  by (induction as) (simp_all add: blocks_Nil blocks_Cons del: replicate_Suc)

lemma drop_blocks: "drop (512 * t) (blocks as) = blocks (drop t as)"
proof (induction as arbitrary: t)
  case Nil
  then show ?case by (simp add: blocks_Nil)
next
  case (Cons a as)
  show ?case
  proof (cases t)
    case 0
    then show ?thesis by simp
  next
    case (Suc k)
    have "drop (512 * Suc k) (blocks (a # as)) = drop (512 * k) (blocks as)"
      by (simp add: blocks_Cons del: replicate_Suc)
    with Cons.IH [of k] Suc show ?thesis by simp
  qed
qed

lemma take_blocks: "take (512 * k) (blocks as) = blocks (take k as)"
proof (induction as arbitrary: k)
  case Nil
  then show ?case by (simp add: blocks_Nil)
next
  case (Cons a as)
  show ?case
  proof (cases k)
    case 0
    then show ?thesis by (simp add: blocks_Nil)
  next
    case (Suc j)
    have "take (512 * Suc j) (blocks (a # as)) = replicate 512 a @ take (512 * j) (blocks as)"
      by (simp add: blocks_Cons del: replicate_Suc)
    with Cons.IH [of j] Suc show ?thesis by (simp add: blocks_Cons)
  qed
qed

lemma sum_blocks:
  "sum_list (map f (blocks as)) = 512 * sum_list (map (f :: real \<Rightarrow> real) as)"
  by (induction as)
    (simp_all add: blocks_Nil blocks_Cons sum_list_replicate algebra_simps del: replicate_Suc)

lemma frame_power_blocks:
  "length as = 4 \<Longrightarrow> frame_power (blocks as) = sum_list (map (\<lambda>x. \<bar>x\<bar> ^ 2) as) / 4"
  by (simp add: frame_power_def sum_blocks length_blocks)

lemma rms_blocks:
  "rms (blocks amps) =
     map (\<lambda>t. sqrt (sum_list (map (\<lambda>x. \<bar>x\<bar> ^ 2) (take 4 (drop t (0 # 0 # amps @ [0, 0])))) / 4))
       [0..<1 + length amps]"
proof -
  have z: "replicate 1024 (0::real) = blocks [0, 0]"
    by (simp add: blocks_def replicate_add [symmetric] del: replicate_Suc)
  have p: "replicate 1024 0 @ blocks amps @ replicate 1024 0 = blocks (0 # 0 # amps @ [0, 0])"
    unfolding z by (simp add: blocks_append [symmetric])
  have n: "1 + (length (blocks (0 # 0 # amps @ [0, 0])) - 2048) div 512 = 1 + length amps"
    by (simp add: length_blocks)
  have f: "sqrt (frame_power (take 2048 (drop (512 * t) (blocks (0 # 0 # amps @ [0, 0])))))
         = sqrt (sum_list (map (\<lambda>x. \<bar>x\<bar> ^ 2) (take 4 (drop t (0 # 0 # amps @ [0, 0])))) / 4)"
    if "t < 1 + length amps" for t
  proof -
    have "take 2048 (drop (512 * t) (blocks (0 # 0 # amps @ [0, 0])))
        = blocks (take 4 (drop t (0 # 0 # amps @ [0, 0])))"
      using take_blocks [of 4] by (simp add: drop_blocks)
    moreover have "length (take 4 (drop t (0 # 0 # amps @ [0, 0]))) = 4"
      using that by simp
    ultimately show ?thesis by (simp add: frame_power_blocks)
  qed
  show ?thesis
    unfolding rms_def Let_def p n
    by (rule map_cong) (simp_all only: f atLeastLessThan_iff set_upt)
qed

subsection \<open>The pauses of the concrete waveform\<close>

lemma demo_amps_eq: "demo_amps =
  [0,0,0,0,0,0,0,0,0,0,0,0,0,0,0,0,0,
   1,0,0,0, 1,0,0,0, 1,0,0,0, 1,0,0,0, 1,0,0,0, 1,0,0,0,
   1,0,0,0, 1,0,0,0, 1,0,0,0, 1,0,0,0, 1,0,0,0, 1,0,0,0,
   1,0,0,0, 1,0,0,0, 1,0,0,0, 1,0,0,0, 1,0,0,0, 1,0,0,0,
   1,0,0,0, 1,0,0,0, 1,0,0,0, 1,0,0,0, 1,0,0,0, 1,0,0,0, 1,0]"
  unfolding demo_amps_def by code_simp

lemma demo_energy_eq: "demo_energy =
  [0,0,0,0,0,0,0,0,0,0,0,0,0,0,0,0,
   1/2,1/2,1/2,1/2,1/2,1/2,1/2,1/2,1/2,1/2,1/2,1/2,1/2,1/2,1/2,1/2,1/2,1/2,1/2,1/2,
   1/2,1/2,1/2,1/2,1/2,1/2,1/2,1/2,1/2,1/2,1/2,1/2,1/2,1/2,1/2,1/2,1/2,1/2,1/2,1/2,
   1/2,1/2,1/2,1/2,1/2,1/2,1/2,1/2,1/2,1/2,1/2,1/2,1/2,1/2,1/2,1/2,1/2,1/2,1/2,1/2,
   1/2,1/2,1/2,1/2,1/2,1/2,1/2,1/2,1/2,1/2,1/2,1/2,1/2,1/2,1/2,1/2,1/2,1/2,1/2,1/2,
   1/2,1/2,1/2,1/2,1/2,1/2,1/2,1/2,1/2,1/2,1/2,1/2,1/2,1/2,1/2,1/2,1/2,1/2,1/2,1/2]"
  unfolding demo_energy_def by (simp add: eval_nat_numeral)

lemma length_demo_wave: "length demo_wave = 58880"
  by (simp add: demo_wave_def length_blocks demo_amps_eq)

lemma rms_demo_wave: "rms demo_wave = demo_energy"
  unfolding demo_wave_def rms_blocks demo_amps_eq demo_energy_eq
  by (simp add: upt_rec_numeral real_sqrt_divide)

lemma sort_demo_energy: "sort demo_energy = demo_energy"
  unfolding demo_energy_def by (rule sorted_sort_id) (simp add: sorted_append)

lemma percentile_demo_energy: "np_percentile demo_energy 15 = Inr (1 / 2)"
proof -
  have l: "length demo_energy = 116" by (simp add: demo_energy_def)
  have a: "demo_energy ! 17 = 1 / 2" "demo_energy ! 18 = 1 / 2"
    by (simp_all add: demo_energy_def nth_append)
  have ne: "demo_energy \<noteq> []" by (simp add: demo_energy_def)
  show ?thesis
    unfolding np_percentile_def Let_def sort_demo_energy l using a ne by simp
qed

lemma silence_demo_energy:
  "silence_frames demo_energy (1 / 2) = [0,1,2,3,4,5,6,7,8,9,10,11,12,13,14,15]"
  unfolding silence_frames_def demo_energy_eq by (simp add: upt_rec_numeral)

lemma runs_demo_energy:
  "silent_runs demo_energy = [[0,1,2,3,4,5,6,7,8,9,10,11,12,13,14,15]]"
  by (simp add: silent_runs_def percentile_demo_energy silence_demo_energy frame_runs_def)

lemma durations_demo_energy:
  "run_durations fd (silent_runs demo_energy) = (if 25 / 100 < 15 * fd then [15 * fd] else [])"
  by (simp add: runs_demo_energy run_durations_def)

lemma detect_pauses_demo: "detect_pauses demo_wave 16000 = Inr [12 / 25]"
  using detect_pauses_runs [of 16000 demo_wave] by (simp add: rms_demo_wave durations_demo_energy)

lemma silent_runs_concat:
  "np_percentile energy 15 = Inr thr \<Longrightarrow> concat (silent_runs energy) = silence_frames energy thr"
  by (simp add: silent_runs_def frame_runs_concat)

lemma silent_runs_intervals:
  assumes "r \<in> set (silent_runs energy)"
  shows "r \<noteq> [] \<and> r = [hd r..last r]"
proof (cases "np_percentile energy 15")
  case (Inl e)
  with assms show ?thesis by (simp add: silent_runs_def)
next
  case (Inr thr)
  with assms have "r \<in> set (frame_runs (silence_frames energy thr))"
    by (simp add: silent_runs_def)
  then show ?thesis by (rule frame_runs_intervals)
qed

lemma silent_runs_gaps: "successively (\<lambda>r r'. 1 < hd r' - last r) (silent_runs energy)"
  by (cases "np_percentile energy 15") (simp_all add: silent_runs_def frame_runs_gaps)

lemma rms_equal_blocks: "rms (blocks [1, 0, 0, 0, 1]) = replicate 6 (1 / 2)"
  unfolding rms_blocks by (simp add: upt_rec_numeral real_sqrt_divide eval_nat_numeral)

subsection \<open>Properties of the pause detector\<close>

text \<open>
  C6. \<open>detect_pauses\<close> never raises, whatever the waveform: it returns a list of
  durations for every waveform, and the empty list for the empty waveform. The sample rate
  is not zero (\<open>analyze_speech\<close> passes 16000); a zero rate is the one input on which the
  function divides by zero, see \<open>detect_pauses_zero_rate\<close>.
\<close>

theorem detect_pauses_never_raises:
  assumes "sr \<noteq> 0"
  shows "(\<exists>pauses. detect_pauses y sr = Inr pauses) \<and> detect_pauses [] sr = Inr []"
proof
  show "\<exists>pauses. detect_pauses y sr = Inr pauses"
    using assms by (simp add: detect_pauses_runs)
next
  have "rms [] = replicate 1 0" using rms_zeros [of 0] by simp
  then show "detect_pauses [] sr = Inr []"
    using assms by (simp only: detect_pauses_def pauses_of_energy_const [of 1] if_False zero_less_one)
qed

theorem detect_pauses_never_raises_witness:
  "detect_pauses demo_wave 16000 = Inr [12 / 25] \<and> detect_pauses [] 16000 = Inr []"
  using detect_pauses_never_raises [of 16000 demo_wave] detect_pauses_demo by simp

text \<open>
  C5, as stated, fails: the waveform \<open>demo_wave\<close> has one run of 16 silent frames, for which
  the claim gives 16 * 512 / 16000 = 0.512 seconds, and \<open>detect_pauses\<close> returns 0.48.
\<close>

theorem pause_duration_counterexample:
  "detect_pauses demo_wave 16000 = Inr [12 / 25] \<and>
   silent_runs (rms demo_wave) = [[0, 1, 2, 3, 4, 5, 6, 7, 8, 9, 10, 11, 12, 13, 14, 15]] \<and>
   (12 / 25 :: real) \<noteq>
     real (length [0, 1, 2, 3, 4, 5, 6, 7, 8, 9, 10, 11, 12, 13, 14, 15 :: int]) * 512 / 16000"
  by (simp add: detect_pauses_demo rms_demo_wave runs_demo_energy)

text \<open>
  C5, amended. Every duration returned by \<open>detect_pauses\<close> is above 0.25 seconds, and the
  durations returned are, in order, the values (n - 1) * 512 / sr above 0.25 for the runs
  of silent frames, n being the number of frames of the run: the code measures a run from
  its first to its last frame. The runs are the maximal intervals of consecutive silent
  frames: they are intervals, they are separated by gaps, and together they are the silent
  frames.
\<close>

theorem detect_pauses_durations:
  assumes "sr \<noteq> 0"
  shows "\<exists>pauses thr.
           detect_pauses y sr = Inr pauses \<and>
           (\<forall>d \<in> set pauses. 25 / 100 < d) \<and>
           pauses = filter (\<lambda>d. 25 / 100 < d)
                      (map (\<lambda>r. (real (length r) - 1) * 512 / of_int sr) (silent_runs (rms y))) \<and>
           np_percentile (rms y) 15 = Inr thr \<and>
           concat (silent_runs (rms y)) = silence_frames (rms y) thr \<and>
           (\<forall>r \<in> set (silent_runs (rms y)). r \<noteq> [] \<and> r = [hd r..last r]) \<and>
           successively (\<lambda>r r'. 1 < hd r' - last r) (silent_runs (rms y))"
proof -
  obtain thr where thr: "np_percentile (rms y) 15 = Inr thr"
    using np_percentile_total [OF rms_not_Nil] by blast
  define pauses where
    "pauses = filter (\<lambda>d. 25 / 100 < d)
       (map (\<lambda>r. (real (length r) - 1) * 512 / of_int sr) (silent_runs (rms y)))"
  have "detect_pauses y sr = Inr (run_durations (512 / of_int sr) (silent_runs (rms y)))"
    using assms by (rule detect_pauses_runs)
  then have "detect_pauses y sr = Inr pauses"
    unfolding run_durations_length pauses_def .
  moreover have "\<forall>d \<in> set pauses. 25 / 100 < d" by (simp add: pauses_def)
  moreover have "concat (silent_runs (rms y)) = silence_frames (rms y) thr"
    using thr by (rule silent_runs_concat)
  moreover have "\<forall>r \<in> set (silent_runs (rms y)). r \<noteq> [] \<and> r = [hd r..last r]"
    using silent_runs_intervals by blast
  ultimately show ?thesis
    using thr silent_runs_gaps [of "rms y"] pauses_def by blast
qed

theorem detect_pauses_durations_witness:
  "detect_pauses demo_wave 16000 = Inr [12 / 25] \<and>
   [12 / 25] = filter (\<lambda>d. 25 / 100 < d)
     (map (\<lambda>r. (real (length r) - 1) * 512 / 16000) (silent_runs (rms demo_wave)))"
  using detect_pauses_durations [of 16000 demo_wave] detect_pauses_demo by auto

text \<open>
  C7, as stated, fails: an entirely silent recording of five seconds has 157 frames of
  energy 0, none of them below the threshold 0, and \<open>detect_pauses\<close> returns no span.
\<close>

theorem silent_recording_counterexample:
  "rms (replicate 80000 0) = replicate 157 0 \<and>
   detect_pauses (replicate 80000 0) 16000 = Inr []"
  by (simp add: detect_pauses_def rms_zeros pauses_of_energy_const del: replicate_Suc)

text \<open>
  C7, amended. A frame is silent when its energy is strictly below the 15th percentile of
  the frame energies, so at most \<open>\<lceil>0.15 * (n - 1)\<rceil>\<close> of the \<open>n\<close> frames are silent, and
  possibly none: a waveform whose frames all have the same energy, an entirely silent
  recording among them, has no silent frame, and \<open>detect_pauses\<close> returns the empty list.
\<close>

theorem silent_frames_at_most_15_percent:
  assumes "sr \<noteq> 0"
  shows "(\<exists>thr. np_percentile (rms y) 15 = Inr thr \<and>
            length (silence_frames (rms y) thr) \<le> (15 * (length (rms y) - 1) + 99) div 100) \<and>
         ((\<forall>e \<in> set (rms y). e = c) \<longrightarrow> detect_pauses y sr = Inr []) \<and>
         detect_pauses (replicate n 0) sr = Inr []"
proof (intro conjI impI)
  obtain thr where thr: "np_percentile (rms y) 15 = Inr thr"
    using np_percentile_total [OF rms_not_Nil] by blast
  with silent_count_bound [OF thr]
  show "\<exists>thr. np_percentile (rms y) 15 = Inr thr \<and>
          length (silence_frames (rms y) thr) \<le> (15 * (length (rms y) - 1) + 99) div 100"
    by blast
next
  assume "\<forall>e \<in> set (rms y). e = c"
  then have "rms y = replicate (length (rms y)) c" by (rule const_list)
  moreover have "0 < length (rms y)" using rms_not_Nil [of y] by simp
  ultimately have "pauses_of_energy (rms y) (512 / of_int sr) = Inr []"
    using pauses_of_energy_const [of "length (rms y)" c] by simp
  then show "detect_pauses y sr = Inr []" using assms by (simp add: detect_pauses_def)
next
  show "detect_pauses (replicate n 0) sr = Inr []"
    using assms by (simp add: detect_pauses_def rms_zeros pauses_of_energy_const del: replicate_Suc)
qed

theorem silent_frames_at_most_15_percent_witness:
  "length (silence_frames (rms demo_wave) (1 / 2)) \<le> (15 * (length (rms demo_wave) - 1) + 99) div 100 \<and>
   rms (blocks [1, 0, 0, 0, 1]) = replicate 6 (1 / 2) \<and>
   detect_pauses (blocks [1, 0, 0, 0, 1]) 16000 = Inr [] \<and>
   detect_pauses (replicate 16000 0) 16000 = Inr []"
proof -
  have a: "\<forall>e \<in> set (rms (blocks [1, 0, 0, 0, 1])). e = 1 / 2"
    by (simp add: rms_equal_blocks)
  have b: "np_percentile (rms demo_wave) 15 = Inr (1 / 2)"
    by (simp add: rms_demo_wave percentile_demo_energy)
  from silent_frames_at_most_15_percent [of 16000 demo_wave 0 0]
  obtain thr where t: "np_percentile (rms demo_wave) 15 = Inr thr"
    and l: "length (silence_frames (rms demo_wave) thr)
          \<le> (15 * (length (rms demo_wave) - 1) + 99) div 100"
    by auto
  from t b have "thr = 1 / 2" by (simp only: sum.inject)
  with l have "length (silence_frames (rms demo_wave) (1 / 2))
          \<le> (15 * (length (rms demo_wave) - 1) + 99) div 100"
    by (simp only:)
  moreover from silent_frames_at_most_15_percent [of 16000 "blocks [1, 0, 0, 0, 1]" "1 / 2" 16000] a
  have "detect_pauses (blocks [1, 0, 0, 0, 1]) 16000 = Inr []"
    and "detect_pauses (replicate 16000 0) 16000 = Inr []"
    by simp_all
  ultimately show ?thesis by (simp add: rms_equal_blocks)
qed

section \<open>The filler counter\<close>

lemma dict_get0_Nil: "dict_get0 [] w = 0"
  by (simp add: dict_get0_def)

lemma dict_get0_update:
  "dict_get0 (AList.update k v d) w = (if w = k then v else dict_get0 d w)"
  by (simp add: dict_get0_def update_conv')

lemma sum_update_incr:
  "sum_list (map snd (AList.update k (dict_get0 d k + 1) d)) = sum_list (map snd d) + 1"
proof (induction d)
  case Nil
  then show ?case by (simp add: dict_get0_def)
next
  case (Cons p d)
  then show ?case by (cases p) (auto simp: dict_get0_def)
qed

lemma filler_fold_sum:
  "sum_list (map snd (foldl (filler_step F) d ws))
     = sum_list (map snd d) + int (length (filter (\<lambda>w. w \<in> F) ws))"
  by (induction ws arbitrary: d) (simp_all add: filler_step_def sum_update_incr)

lemma filler_fold_distinct:
  "distinct (map fst d) \<Longrightarrow> distinct (map fst (foldl (filler_step F) d ws))"
  by (induction ws arbitrary: d) (simp_all add: filler_step_def distinct_update)

lemma filler_fold_get:
  "dict_get0 (foldl (filler_step F) d ws) w
     = dict_get0 d w + (if w \<in> F then int (count_list ws w) else 0)"
  by (induction ws arbitrary: d) (auto simp: filler_step_def dict_get0_update)

lemma filler_fold_keys:
  "fst ` set (foldl (filler_step F) d ws) = fst ` set d \<union> (set ws \<inter> F)"
  by (induction ws arbitrary: d)
    (auto simp: filler_step_def dom_update [simplified dom_map_of_conv_image_fst])

lemma sum_list_dict:
  assumes "distinct (map fst d)"
  shows "sum_list (map snd d) = (\<Sum>k \<in> fst ` set d. dict_get0 d k)"
proof -
  have "map snd d = map (dict_get0 d) (map fst d)"
    using assms by (auto simp: dict_get0_def)
  then have "sum_list (map snd d) = sum_list (map (dict_get0 d) (map fst d))"
    by (rule arg_cong)
  also have "\<dots> = sum (dict_get0 d) (set (map fst d))"
    using assms by (rule sum_list_distinct_conv_sum_set)
  finally show ?thesis by simp
qed

lemma fillers_count_nonneg: "0 \<le> fst (count_fillers E text lang)"
  by (simp add: count_fillers_def Let_def filler_fold_sum)

lemma demo_words_um:
  "findall_words (demo_env t) (demo_lower (str ''um, like, this is, um, a test''))
     = map str [''um'', ''like'', ''this'', ''is'', ''um'', ''a'', ''test'']"
  by (simp add: findall_words_def demo_env_def demo_lower_def demo_word_char_def str_def)

lemma count_fillers_um:
  "count_fillers (demo_env t) (str ''um, like, this is, um, a test'') (str ''en'')
     = (3, [(str ''um'', 2), (str ''like'', 1)])"
proof -
  have "str_lower (demo_env t) = demo_lower" by (simp add: demo_env_def)
  then show ?thesis
    unfolding count_fillers_def Let_def
    by (simp only: demo_words_um) (simp add: str_def FILLERS_EN_def filler_step_def dict_get0_def)
qed

lemma count_fillers_ru:
  "count_fillers (demo_env t)
     [1053, 1091, 32, 1074, 1086, 1090, 44, 32, 1090, 1080, 1087, 1072, 32, 1090, 1077, 1089, 1090]
     (str ''ru'')
     = (3, [([1085, 1091], 1), ([1074, 1086, 1090], 1), ([1090, 1080, 1087, 1072], 1)])"
  by (simp add: count_fillers_def findall_words_def demo_env_def demo_lower_def
        demo_word_char_def FILLERS_RU_def filler_step_def dict_get0_def)

text \<open>
  C2. The total returned by \<open>count_fillers\<close> is the sum of the counts of the breakdown it
  returns, whatever the text and the language. The breakdown is a map (its keys are
  distinct), its keys are the tokens of the text that are in the vocabulary, each with the
  number of its occurrences, which is at least 1; so the sum over the entries is the sum
  over the keys of the map, and the total is the number of filler tokens of the text.
\<close>

theorem count_fillers_total:
  assumes "count_fillers E text lang = (total_count, details)"
  shows "total_count = sum_list (map snd details) \<and>
         distinct (map fst details) \<and>
         total_count = (\<Sum>w \<in> fst ` set details. dict_get0 details w) \<and>
         fst ` set details =
           set (findall_words E (str_lower E text)) \<inter>
           set (if lang = str ''ru'' then FILLERS_RU else FILLERS_EN) \<and>
         (\<forall>w \<in> fst ` set details.
            dict_get0 details w = int (count_list (findall_words E (str_lower E text)) w) \<and>
            1 \<le> dict_get0 details w) \<and>
         total_count =
           int (length (filter (\<lambda>w. w \<in> set (if lang = str ''ru'' then FILLERS_RU else FILLERS_EN))
                  (findall_words E (str_lower E text))))"
proof -
  define fillers where "fillers = set (if lang = str ''ru'' then FILLERS_RU else FILLERS_EN)"
  define words where "words = findall_words E (str_lower E text)"
  have d: "details = foldl (filler_step fillers) [] words"
    and t: "total_count = sum_list (map snd details)"
    using assms by (auto simp: count_fillers_def Let_def fillers_def words_def)
  have dist: "distinct (map fst details)"
    unfolding d by (rule filler_fold_distinct) simp
  have keys: "fst ` set details = set words \<inter> fillers"
    unfolding d by (simp add: filler_fold_keys)
  have get: "dict_get0 details w = (if w \<in> fillers then int (count_list words w) else 0)" for w
    unfolding d by (simp add: filler_fold_get dict_get0_Nil)
  have pos: "dict_get0 details w = int (count_list words w) \<and> 1 \<le> dict_get0 details w"
    if "w \<in> fst ` set details" for w
  proof -
    from that keys have w: "w \<in> set words" "w \<in> fillers" by auto
    then have "count_list words w \<noteq> 0" by (simp add: count_list_0_iff)
    then have "0 < count_list words w" by simp
    then show ?thesis using w by (simp add: get)
  qed
  have len: "total_count = int (length (filter (\<lambda>w. w \<in> fillers) words))"
    unfolding t d by (simp add: filler_fold_sum)
  have sum: "total_count = (\<Sum>w \<in> fst ` set details. dict_get0 details w)"
    using t sum_list_dict [OF dist] by simp
  from t dist sum keys pos len show ?thesis
    unfolding fillers_def words_def by blast
qed

theorem count_fillers_total_witness:
  "count_fillers (demo_env []) (str ''um, like, this is, um, a test'') (str ''en'')
     = (3, [(str ''um'', 2), (str ''like'', 1)]) \<and>
   (3::int) = sum_list (map snd [(str ''um'', 2), (str ''like'', 1)]) \<and>
   distinct (map fst [(str ''um'', 2 :: int), (str ''like'', 1)]) \<and>
   count_fillers (demo_env [])
     [1053, 1091, 32, 1074, 1086, 1090, 44, 32, 1090, 1080, 1087, 1072, 32, 1090, 1077, 1089, 1090]
     (str ''ru'')
     = (3, [([1085, 1091], 1), ([1074, 1086, 1090], 1), ([1090, 1080, 1087, 1072], 1)]) \<and>
   (3::int) = sum_list (map snd
      [([1085, 1091 :: nat], 1), ([1074, 1086, 1090], 1), ([1090, 1080, 1087, 1072], 1)])"
proof -
  note en = count_fillers_total [OF count_fillers_um [of "[]"]]
  note ru = count_fillers_total [OF count_fillers_ru [of "[]"]]
  from en have a: "(3::int) = sum_list (map snd [(str ''um'', 2), (str ''like'', 1)])"
    by (rule conjunct1)
  from en have b: "distinct (map fst [(str ''um'', 2 :: int), (str ''like'', 1)])"
    by (rule conjunct1 [OF conjunct2])
  from ru have c: "(3::int) = sum_list (map snd
      [([1085, 1091 :: nat], 1), ([1074, 1086, 1090], 1), ([1090, 1080, 1087, 1072], 1)])"
    by (rule conjunct1)
  from a b c count_fillers_um [of "[]"] count_fillers_ru [of "[]"] show ?thesis
    by (intro conjI)
qed

section \<open>Ratings, rounding and the aggregate\<close>

lemma tempo_labels_distinct:
  "optimal_label lang \<noteq> slow_label lang" "optimal_label lang \<noteq> fast_label lang"
  "slow_label lang \<noteq> fast_label lang"
  by (simp_all add: optimal_label_def slow_label_def fast_label_def str_def
        ru_optimal_def ru_too_slow_def ru_too_fast_def)

lemma monotony_labels_distinct:
  "lively_label lang \<noteq> moderate_label lang" "lively_label lang \<noteq> monotonous_label lang"
  "moderate_label lang \<noteq> monotonous_label lang"
  by (simp_all add: lively_label_def moderate_label_def monotonous_label_def str_def
        ru_lively_def ru_moderate_def ru_monotonous_def)

lemma dynamics_labels_distinct:
  "pronounced_label lang \<noteq> medium_label lang" "pronounced_label lang \<noteq> flat_label lang"
  "medium_label lang \<noteq> flat_label lang"
  by (simp_all add: pronounced_label_def medium_label_def flat_label_def str_def
        ru_pronounced_def ru_medium_def ru_flat_def)

lemma tempo_label_cases:
  "tempo_label lang wpm =
     (if 120 \<le> wpm \<and> wpm \<le> 150 then optimal_label lang
      else if wpm < 120 then slow_label lang else fast_label lang)"
  by (simp add: tempo_label_def optimal_label_def slow_label_def fast_label_def
        OPTIMAL_WPM_MIN_def OPTIMAL_WPM_MAX_def)

lemma monotony_label_cases:
  "monotony_label lang v =
     (if 60 < v then lively_label lang
      else if 30 < v then moderate_label lang else monotonous_label lang)"
  by (simp add: monotony_label_def lively_label_def moderate_label_def monotonous_label_def)

lemma dynamics_label_cases:
  "dynamics_label lang v =
     (if 3 / 100 < v then pronounced_label lang
      else if 15 / 1000 < v then medium_label lang else flat_label lang)"
  by (simp add: dynamics_label_def pronounced_label_def medium_label_def flat_label_def)

lemma tempo_iff:
  "(tempo_label lang wpm = optimal_label lang \<longleftrightarrow> 120 \<le> wpm \<and> wpm \<le> 150) \<and>
   (tempo_label lang wpm = slow_label lang \<longleftrightarrow> wpm < 120) \<and>
   (tempo_label lang wpm = fast_label lang \<longleftrightarrow> 150 < wpm)"
  using tempo_labels_distinct [of lang] by (auto simp: tempo_label_cases)

lemma monotony_iff:
  "(monotony_label lang v = lively_label lang \<longleftrightarrow> 60 < v) \<and>
   (monotony_label lang v = moderate_label lang \<longleftrightarrow> 30 < v \<and> v \<le> 60) \<and>
   (monotony_label lang v = monotonous_label lang \<longleftrightarrow> v \<le> 30)"
  using monotony_labels_distinct [of lang] by (auto simp: monotony_label_cases)

lemma dynamics_iff:
  "(dynamics_label lang v = pronounced_label lang \<longleftrightarrow> 3 / 100 < v) \<and>
   (dynamics_label lang v = medium_label lang \<longleftrightarrow> 15 / 1000 < v \<and> v \<le> 3 / 100) \<and>
   (dynamics_label lang v = flat_label lang \<longleftrightarrow> v \<le> 15 / 1000)"
  using dynamics_labels_distinct [of lang] by (auto simp: dynamics_label_cases)

lemma py_round_nonneg: "0 \<le> x \<Longrightarrow> 0 \<le> py_round x n"
proof -
  assume "0 \<le> x"
  then have "0 \<le> x * 10 ^ n" by simp
  then have "0 \<le> \<lfloor>x * 10 ^ n\<rfloor>" by simp
  then show ?thesis by (simp add: py_round_def Let_def)
qed

lemma py_round_zero: "py_round 0 n = 0"
  by (simp add: py_round_def)

text \<open>The index returned by \<open>argmax\<close> is within the array, so the read at it is defined.\<close>

lemma argmax_from_less: "best < i \<Longrightarrow> argmax_from i best v xs < i + length xs"
proof (induction xs arbitrary: i best v)
  case Nil
  then show ?case by simp
next
  case (Cons x xs)
  show ?case
  proof (cases "v < x")
    case True
    with Cons.IH [of i "i + 1" x] show ?thesis by simp
  next
    case False
    with Cons.IH [of best "i + 1" v] Cons.prems show ?thesis by simp
  qed
qed

lemma argmax_in_range: "argmax xs = Inr i \<Longrightarrow> i < length xs"
  using argmax_from_less [of 0 1]
  by (cases xs) (auto simp: argmax_def)

lemma select_pitch_total:
  "\<forall>col \<in> set track. col \<noteq> [] \<Longrightarrow> \<exists>p. select_pitch track = Inr p"
proof (induction track)
  case Nil
  then show ?case by simp
next
  case (Cons col cols)
  then obtain rest where "select_pitch cols = Inr rest" by auto
  moreover from Cons.prems obtain c cs where "col = c # cs" by (cases col) auto
  ultimately show ?case by (simp add: argmax_def Let_def)
qed

lemma analyze_prosody_total:
  assumes "\<forall>col \<in> set (piptrack E y sr). col \<noteq> []"
  shows "\<exists>p. analyze_prosody E y sr lang = Inr p"
proof -
  from select_pitch_total [OF assms] obtain p where "select_pitch (piptrack E y sr) = Inr p" ..
  then show ?thesis by (simp add: analyze_prosody_def pitch_track_def Let_def)
qed

lemma count_short_length:
  "count_short ps = int (length (filter (\<lambda>p. 3 / 10 \<le> p \<and> p \<le> 1) ps))"
  unfolding count_short_def by (induction ps) simp_all

lemma count_long_length:
  "count_long ps = int (length (filter (\<lambda>p. 15 / 10 < p) ps))"
  unfolding count_long_def by (induction ps) simp_all

lemma wpm_quotient_value:
  "d \<noteq> 0 \<Longrightarrow> wpm_quotient ws d = Inr (real (length ws) / (d / 60))"
  by (simp add: wpm_quotient_def py_truediv_def)

lemma wpm_quotient_zero: "wpm_quotient ws 0 = Inl ZeroDivisionError"
  by (simp add: wpm_quotient_def py_truediv_def)

lemma compute_wpm_value:
  "compute_wpm ws d = Inr (if 0 < d then real (length ws) / (d / 60) else 0)"
  by (simp add: compute_wpm_def wpm_quotient_value)

lemma compute_wpm_nonneg: "compute_wpm ws d = Inr wpm \<Longrightarrow> 0 \<le> wpm"
  by (auto simp: compute_wpm_value split: if_splits)

lemma compute_wpm_zero_iff:
  "compute_wpm ws d = Inr wpm \<Longrightarrow> wpm = 0 \<longleftrightarrow> d \<le> 0 \<or> ws = []"
  by (auto simp: compute_wpm_value split: if_splits)

lemma analyze_speech_fields:
  assumes "analyze_prosody E y 16000 lang = Inr pros"
    and "compute_wpm (findall_words E text) (get_duration y 16000) = Inr wpm"
  shows "analyze_speech E y text lang =
     Inr \<lparr> duration_sec = py_round (get_duration y 16000) 2,
           word_count = int (length (findall_words E text)),
           words_per_minute = py_round wpm 1,
           tempo_rating = tempo_label lang wpm,
           short_pauses = count_short (run_durations (512 / 16000) (silent_runs (rms y))),
           long_pauses = count_long (run_durations (512 / 16000) (silent_runs (rms y))),
           fillers_count = fst (count_fillers E text lang),
           filler_details = snd (count_fillers E text lang),
           prosody = pros \<rparr>"
  using assms detect_pauses_runs [of 16000 y]
  by (simp add: analyze_speech_def Let_def split: prod.splits)

lemma analyze_speech_Inr:
  assumes "analyze_speech E y text lang = Inr m"
  shows "\<exists>pros wpm. analyze_prosody E y 16000 lang = Inr pros \<and>
           compute_wpm (findall_words E text) (get_duration y 16000) = Inr wpm"
  using assms detect_pauses_runs [of 16000 y]
  by (auto simp: analyze_speech_def Let_def split: prod.splits sum.splits)

lemma get_duration_nonneg: "0 \<le> get_duration y 16000"
  by (simp add: get_duration_def)

lemma get_duration_zero_iff: "get_duration y 16000 = 0 \<longleftrightarrow> y = []"
  by (simp add: get_duration_def)

subsection \<open>The analysis of the concrete recording\<close>

lemma mean_demo_energy: "np_mean demo_energy = 25 / 58"
  unfolding np_mean_def demo_energy_def by (simp add: sum_list_replicate)

lemma std_demo_energy: "np_std demo_energy = 5 / 29"
proof -
  have "np_mean (map (\<lambda>x. \<bar>x - 25 / 58\<bar> ^ 2) demo_energy) = 25 / 841"
    unfolding np_mean_def demo_energy_def by (simp add: sum_list_replicate power2_eq_square)
  moreover have "sqrt (25 / 841) = 5 / 29"
    by (rule real_sqrt_unique) (simp_all add: power2_eq_square)
  ultimately show ?thesis unfolding np_std_def mean_demo_energy by (simp only:)
qed

lemma mean_demo_pitch: "np_mean [100, 160] = 130"
  by (simp add: np_mean_def)

lemma std_demo_pitch: "np_std [100, 160] = 30"
proof -
  have "sqrt 900 = 30" by (rule real_sqrt_unique) simp_all
  then show ?thesis by (simp add: np_std_def mean_demo_pitch) (simp add: np_mean_def)
qed

lemma demo_rounds:
  "py_round (25 / 58) 4 = 431 / 1000" "py_round (5 / 29) 4 = 431 / 2500"
  "py_round 130 1 = 130" "py_round 30 1 = 30"
  "py_round (92 / 25) 2 = 92 / 25" "py_round (3000 / 23) 1 = 652 / 5"
  unfolding py_round_def Let_def by simp_all

lemma select_pitch_demo: "select_pitch demo_track = Inr [100, 160]"
  by (simp add: demo_track_def argmax_def)

lemma pitch_track_demo: "pitch_track (demo_env demo_track) y sr = Inr [100, 160]"
  by (simp add: pitch_track_def demo_env_def select_pitch_demo)

lemma analyze_prosody_demo:
  "analyze_prosody (demo_env demo_track) demo_wave 16000 (str ''en'') = Inr (prosody demo_metrics)"
  by (simp add: analyze_prosody_def pitch_track_demo rms_demo_wave std_demo_pitch
        mean_demo_pitch std_demo_energy mean_demo_energy demo_rounds
        demo_rounds [unfolded One_nat_def] demo_metrics_def
        monotony_label_def dynamics_label_def)

lemma demo_words:
  "findall_words (demo_env t) demo_text =
     map str [''Well'', ''this'', ''is'', ''just'', ''a'', ''short'', ''test'', ''recording'']"
  by (simp add: findall_words_def demo_env_def demo_text_def demo_word_char_def str_def)

lemma demo_words_lower:
  "findall_words (demo_env t) (demo_lower demo_text) =
     map str [''well'', ''this'', ''is'', ''just'', ''a'', ''short'', ''test'', ''recording'']"
  by (simp add: findall_words_def demo_env_def demo_text_def demo_lower_def demo_word_char_def
        str_def)

lemma count_fillers_demo:
  "count_fillers (demo_env t) demo_text (str ''en'') = (2, [(str ''well'', 1), (str ''just'', 1)])"
proof -
  have "str_lower (demo_env t) = demo_lower" by (simp add: demo_env_def)
  then show ?thesis
    unfolding count_fillers_def Let_def
    by (simp only: demo_words_lower) (simp add: str_def FILLERS_EN_def filler_step_def dict_get0_def)
qed

lemma get_duration_demo: "get_duration demo_wave 16000 = 92 / 25"
  by (simp add: get_duration_def length_demo_wave)

lemma compute_wpm_demo:
  "compute_wpm (findall_words (demo_env t) demo_text) (get_duration demo_wave 16000)
     = Inr (3000 / 23)"
  by (simp add: demo_words get_duration_demo compute_wpm_value)

lemma analyze_speech_demo:
  "analyze_speech (demo_env demo_track) demo_wave demo_text (str ''en'') = Inr demo_metrics"
  unfolding analyze_speech_fields [OF analyze_prosody_demo compute_wpm_demo] get_duration_demo
    rms_demo_wave count_fillers_demo
  by (simp add: demo_rounds demo_rounds [unfolded One_nat_def] demo_words durations_demo_energy
        count_short_def count_long_def tempo_label_def OPTIMAL_WPM_MIN_def OPTIMAL_WPM_MAX_def
        demo_metrics_def)

lemma count_fillers_empty: "count_fillers (demo_env t) [] lang = (0, [])"
  by (simp add: count_fillers_def findall_words_def demo_env_def demo_lower_def)

lemma compute_wpm_no_words:
  "compute_wpm (findall_words (demo_env t) []) (get_duration demo_wave 16000) = Inr 0"
  by (simp add: findall_words_def get_duration_demo compute_wpm_value)

lemma analyze_speech_no_words:
  "analyze_speech (demo_env demo_track) demo_wave [] (str ''en'') = Inr demo_metrics_no_words"
  unfolding analyze_speech_fields [OF analyze_prosody_demo compute_wpm_no_words] get_duration_demo
    rms_demo_wave count_fillers_empty
  by (simp add: demo_rounds py_round_zero findall_words_def durations_demo_energy
        count_short_def count_long_def tempo_label_def OPTIMAL_WPM_MIN_def OPTIMAL_WPM_MAX_def
        demo_metrics_def demo_metrics_no_words_def)

subsection \<open>Properties of the aggregate and of the prosody ratings\<close>

text \<open>
  C1, as stated, fails in the converse direction of "exactly when": the recording
  \<open>demo_wave\<close> lasts 3.68 seconds, and with an empty transcript its words-per-minute
  value is 0.
\<close>

theorem wpm_zero_counterexample:
  "analyze_speech (demo_env demo_track) demo_wave [] (str ''en'') = Inr demo_metrics_no_words \<and>
   words_per_minute demo_metrics_no_words = 0 \<and>
   get_duration demo_wave 16000 = 92 / 25 \<and>
   (92 / 25 :: real) \<noteq> 0"
  by (simp add: analyze_speech_no_words get_duration_demo demo_metrics_no_words_def)

text \<open>
  C1, amended. Whatever the waveform and the transcript, \<open>analyze_speech\<close> returns a
  record (when the pitch tracker yields at least one frequency bin per frame, which the
  library does), and its duration, word count, words-per-minute value, pause counts and
  filler count are non-negative. No division by zero is performed: the guarded expression
  \<open>compute_wpm\<close> returns a value for every duration, also for the duration 0, on which the
  quotient itself raises \<open>ZeroDivisionError\<close>; the words-per-minute value of the record
  is then 0. Before rounding, the words-per-minute value is 0 exactly when the duration is
  0 or the transcript has no words, and the rounded value of the record is 0 in both cases.
\<close>

theorem analyze_speech_nonnegative:
  assumes "\<forall>col \<in> set (piptrack E y 16000). col \<noteq> []"
  shows "\<exists>m wpm.
           analyze_speech E y text lang = Inr m \<and>
           compute_wpm (findall_words E text) (get_duration y 16000) = Inr wpm \<and>
           words_per_minute m = py_round wpm 1 \<and>
           0 \<le> duration_sec m \<and> 0 \<le> word_count m \<and> 0 \<le> words_per_minute m \<and>
           0 \<le> short_pauses m \<and> 0 \<le> long_pauses m \<and> 0 \<le> fillers_count m \<and>
           (get_duration y 16000 = 0 \<longrightarrow>
              words_per_minute m = 0 \<and>
              wpm_quotient (findall_words E text) (get_duration y 16000)
                = Inl ZeroDivisionError) \<and>
           (wpm = 0 \<longleftrightarrow> get_duration y 16000 = 0 \<or> word_count m = 0) \<and>
           (wpm = 0 \<longrightarrow> words_per_minute m = 0)"
proof -
  from analyze_prosody_total [OF assms] obtain pros
    where pros: "analyze_prosody E y 16000 lang = Inr pros" by blast
  define wpm where
    "wpm = (if 0 < get_duration y 16000
            then real (length (findall_words E text)) / (get_duration y 16000 / 60) else 0)"
  have w: "compute_wpm (findall_words E text) (get_duration y 16000) = Inr wpm"
    by (simp only: compute_wpm_value wpm_def)
  note m = analyze_speech_fields [OF pros w]
  have d: "0 \<le> get_duration y 16000" by (rule get_duration_nonneg)
  have "0 \<le> py_round (get_duration y 16000) 2"
    using d by (rule py_round_nonneg)
  moreover have "0 \<le> py_round wpm 1"
    using w by (intro py_round_nonneg compute_wpm_nonneg)
  moreover have z: "wpm = 0 \<longleftrightarrow> get_duration y 16000 = 0 \<or> findall_words E text = []"
    using compute_wpm_zero_iff [OF w] d by auto
  moreover have "get_duration y 16000 = 0 \<longrightarrow>
      wpm_quotient (findall_words E text) (get_duration y 16000) = Inl ZeroDivisionError"
    by (simp add: wpm_quotient_zero)
  moreover have "wpm = 0 \<longrightarrow> py_round wpm 1 = 0" by (simp add: py_round_zero)
  moreover have "0 \<le> fst (count_fillers E text lang)" by (rule fillers_count_nonneg)
  ultimately show ?thesis
    unfolding m using w by (simp add: count_short_length count_long_length)
qed

theorem analyze_speech_nonnegative_witness:
  "analyze_speech (demo_env demo_track) demo_wave demo_text (str ''en'') = Inr demo_metrics \<and>
   compute_wpm (findall_words (demo_env demo_track) demo_text) (get_duration demo_wave 16000)
     = Inr (3000 / 23) \<and>
   0 \<le> duration_sec demo_metrics \<and> 0 \<le> word_count demo_metrics \<and>
   0 \<le> words_per_minute demo_metrics \<and> 0 \<le> short_pauses demo_metrics \<and>
   0 \<le> long_pauses demo_metrics \<and> 0 \<le> fillers_count demo_metrics \<and>
   get_duration [] 16000 = 0 \<and>
   words_per_minute (projr (analyze_speech (demo_env demo_track) [] demo_text (str ''en''))) = 0 \<and>
   wpm_quotient (findall_words (demo_env demo_track) demo_text) (get_duration [] 16000)
     = Inl ZeroDivisionError \<and>
   compute_wpm (findall_words (demo_env demo_track) demo_text) (get_duration [] 16000) = Inr 0"
proof -
  have t: "\<forall>col \<in> set (piptrack (demo_env demo_track) y 16000). col \<noteq> []" for y
    by (simp add: demo_env_def demo_track_def)
  from analyze_speech_nonnegative [OF t, of demo_wave demo_text "str ''en''"]
  have a: "0 \<le> duration_sec demo_metrics \<and> 0 \<le> word_count demo_metrics \<and>
        0 \<le> words_per_minute demo_metrics \<and> 0 \<le> short_pauses demo_metrics \<and>
        0 \<le> long_pauses demo_metrics \<and> 0 \<le> fillers_count demo_metrics"
    unfolding analyze_speech_demo by (elim exE conjE) (simp only: sum.inject)
  have z: "get_duration [] 16000 = 0" by (simp add: get_duration_def)
  from analyze_speech_nonnegative [OF t, of "[]" demo_text "str ''en''"] z
  have b: "words_per_minute (projr (analyze_speech (demo_env demo_track) [] demo_text (str ''en''))) = 0"
    and c: "wpm_quotient (findall_words (demo_env demo_track) demo_text) (get_duration [] 16000)
              = Inl ZeroDivisionError"
    by (elim exE conjE, simp)+
  have e: "compute_wpm (findall_words (demo_env demo_track) demo_text) (get_duration [] 16000) = Inr 0"
    by (simp add: compute_wpm_value z)
  note f = analyze_speech_demo compute_wpm_demo [of demo_track]
  from a b c e z f show ?thesis by (simp only: simp_thms)
qed

text \<open>
  C3. The tempo rating of the record is the label computed from the words-per-minute value
  (the value before rounding); it is the label "optimal" of the language exactly when
  120 \<le> wpm \<le> 150, the label "slow" exactly when wpm < 120 and the label "fast" exactly
  when wpm > 150, for every value; 120 and 150 are optimal.
\<close>

theorem tempo_rating_thresholds:
  assumes "analyze_speech E y text lang = Inr m"
  shows "(\<exists>wpm. compute_wpm (findall_words E text) (get_duration y 16000) = Inr wpm \<and>
                tempo_rating m = tempo_label lang wpm) \<and>
         (\<forall>wpm. (tempo_label lang wpm = optimal_label lang \<longleftrightarrow> 120 \<le> wpm \<and> wpm \<le> 150) \<and>
                (tempo_label lang wpm = slow_label lang \<longleftrightarrow> wpm < 120) \<and>
                (tempo_label lang wpm = fast_label lang \<longleftrightarrow> 150 < wpm)) \<and>
         tempo_label lang 120 = optimal_label lang \<and>
         tempo_label lang 150 = optimal_label lang"
proof -
  from analyze_speech_Inr [OF assms] obtain pros wpm
    where p: "analyze_prosody E y 16000 lang = Inr pros"
      and w: "compute_wpm (findall_words E text) (get_duration y 16000) = Inr wpm"
    by blast
  from analyze_speech_fields [OF p w] assms
  have "tempo_rating m = tempo_label lang wpm"
    by auto
  with w have "\<exists>wpm. compute_wpm (findall_words E text) (get_duration y 16000) = Inr wpm \<and>
                tempo_rating m = tempo_label lang wpm"
    by blast
  moreover have "tempo_label lang 120 = optimal_label lang" "tempo_label lang 150 = optimal_label lang"
    by (simp_all add: tempo_label_cases)
  ultimately show ?thesis using tempo_iff [of lang] by blast
qed

theorem tempo_rating_thresholds_witness:
  "compute_wpm (findall_words (demo_env demo_track) demo_text) (get_duration demo_wave 16000)
     = Inr (3000 / 23) \<and>
   tempo_rating demo_metrics = tempo_label (str ''en'') (3000 / 23) \<and>
   tempo_rating demo_metrics = optimal_label (str ''en'') \<and>
   tempo_label (str ''en'') 120 = str ''optimal'' \<and>
   tempo_label (str ''en'') 150 = str ''optimal'' \<and>
   tempo_label (str ''ru'') 120 = ru_optimal \<and>
   tempo_label (str ''en'') (1199 / 10) = str ''too slow'' \<and>
   tempo_label (str ''en'') (1501 / 10) = str ''too fast''"
proof -
  note t = tempo_rating_thresholds [OF analyze_speech_demo]
  note e = compute_wpm_demo [of demo_track]
  from t obtain wpm where
    "compute_wpm (findall_words (demo_env demo_track) demo_text) (get_duration demo_wave 16000)
       = Inr wpm"
    and r: "tempo_rating demo_metrics = tempo_label (str ''en'') wpm"
    by blast
  with e have "wpm = 3000 / 23" by (simp only: sum.inject)
  with r have a: "tempo_rating demo_metrics = tempo_label (str ''en'') (3000 / 23)"
    by (simp only:)
  from t have b: "tempo_label (str ''en'') 120 = str ''optimal''"
    "tempo_label (str ''en'') 150 = str ''optimal''"
    by (simp_all add: optimal_label_def)
  have c: "tempo_rating demo_metrics = optimal_label (str ''en'')"
    by (simp add: demo_metrics_def optimal_label_def)
  have d: "tempo_label (str ''ru'') 120 = ru_optimal"
    "tempo_label (str ''en'') (1199 / 10) = str ''too slow''"
    "tempo_label (str ''en'') (1501 / 10) = str ''too fast''"
    by (simp_all add: tempo_label_def OPTIMAL_WPM_MIN_def OPTIMAL_WPM_MAX_def str_def)
  show ?thesis
    by (intro conjI) (fact a b c d e)+
qed

text \<open>
  C4. The short-pause count of the record is the number of the durations returned by the
  pause detector with 0.3 \<le> d \<le> 1.0, the long-pause count the number of those with
  d > 1.5: a duration adds one to the short count exactly when it is in [0.3, 1.0], one to
  the long count exactly when it is above 1.5, and a duration strictly between 1.0 and 1.5
  changes neither count.
\<close>

theorem pause_buckets:
  assumes "analyze_speech E y text lang = Inr m"
  shows "\<exists>pauses. detect_pauses y 16000 = Inr pauses \<and>
           short_pauses m = int (length (filter (\<lambda>d. 3 / 10 \<le> d \<and> d \<le> 1) pauses)) \<and>
           long_pauses m = int (length (filter (\<lambda>d. 15 / 10 < d) pauses)) \<and>
           (\<forall>d ps. count_short (ps @ [d]) =
                      count_short ps + (if 3 / 10 \<le> d \<and> d \<le> 1 then 1 else 0) \<and>
                    count_long (ps @ [d]) = count_long ps + (if 15 / 10 < d then 1 else 0)) \<and>
           (\<forall>d ps. 1 < d \<and> d < 15 / 10 \<longrightarrow>
                    count_short (ps @ [d]) = count_short ps \<and>
                    count_long (ps @ [d]) = count_long ps)"
proof -
  from analyze_speech_Inr [OF assms] obtain pros wpm
    where "analyze_prosody E y 16000 lang = Inr pros"
      and "compute_wpm (findall_words E text) (get_duration y 16000) = Inr wpm"
    by blast
  from analyze_speech_fields [OF this] assms
  have "short_pauses m = count_short (run_durations (512 / 16000) (silent_runs (rms y)))"
    and "long_pauses m = count_long (run_durations (512 / 16000) (silent_runs (rms y)))"
    by auto
  moreover have "detect_pauses y 16000 = Inr (run_durations (512 / 16000) (silent_runs (rms y)))"
    using detect_pauses_runs [of 16000 y] by simp
  ultimately show ?thesis
    by (simp add: count_short_length count_long_length)
qed

theorem pause_buckets_witness:
  "detect_pauses demo_wave 16000 = Inr [12 / 25] \<and>
   short_pauses demo_metrics = int (length (filter (\<lambda>d. 3 / 10 \<le> d \<and> d \<le> 1) [12 / 25 :: real])) \<and>
   long_pauses demo_metrics = int (length (filter (\<lambda>d. 15 / 10 < d) [12 / 25 :: real])) \<and>
   count_short [3 / 10, 1, 12 / 10, 15 / 10, 2, 29 / 100] = 2 \<and>
   count_long [3 / 10, 1, 12 / 10, 15 / 10, 2, 29 / 100] = 1 \<and>
   count_short ([12 / 25] @ [12 / 10]) = count_short [12 / 25] \<and>
   count_long ([12 / 25] @ [12 / 10]) = count_long [12 / 25]"
proof -
  from pause_buckets [OF analyze_speech_demo] obtain pauses where
    p: "detect_pauses demo_wave 16000 = Inr pauses"
    and s: "short_pauses demo_metrics = int (length (filter (\<lambda>d. 3 / 10 \<le> d \<and> d \<le> 1) pauses))"
    and l: "long_pauses demo_metrics = int (length (filter (\<lambda>d. 15 / 10 < d) pauses))"
    and n: "\<forall>d ps. 1 < d \<and> d < 15 / 10 \<longrightarrow>
              count_short (ps @ [d]) = count_short ps \<and> count_long (ps @ [d]) = count_long ps"
    by blast
  from p have "pauses = [12 / 25]" by (simp add: detect_pauses_demo)
  moreover have "(1::real) < 12 / 10 \<and> (12 / 10 :: real) < 15 / 10" by simp
  with n have "count_short ([12 / 25] @ [12 / 10]) = count_short [12 / 25] \<and>
               count_long ([12 / 25] @ [12 / 10]) = count_long [12 / 25]"
    by blast
  moreover have "count_short [3 / 10, 1, 12 / 10, 15 / 10, 2, 29 / 100] = 2"
    "count_long [3 / 10, 1, 12 / 10, 15 / 10, 2, 29 / 100] = 1"
    by (simp_all add: count_short_def count_long_def)
  ultimately show ?thesis using p s l by simp
qed

text \<open>
  C8, as stated, fails on the boundary: a pitch track of standard deviation exactly 30 is
  in the band 30 to 60 and not below 30, and it is rated "high (monotonous)".
\<close>

theorem monotony_boundary_counterexample:
  "pitch_track (demo_env demo_track) demo_wave 16000 = Inr [100, 160] \<and>
   np_std [100, 160] = 30 \<and>
   analyze_prosody (demo_env demo_track) demo_wave 16000 (str ''en'') = Inr (prosody demo_metrics) \<and>
   monotony (prosody demo_metrics) = str ''high (monotonous)'' \<and>
   \<not> (30 :: real) < 30"
  by (simp add: pitch_track_demo std_demo_pitch analyze_prosody_demo demo_metrics_def)

text \<open>
  C8, amended. \<open>analyze_prosody\<close> rates the standard deviation of the pitch track and that
  of the frame energies, both before rounding. The monotony label is "lively" exactly when
  the pitch deviation is above 60, "moderate" exactly when it is above 30 and at most 60,
  and "high (monotonous)" exactly when it is at most 30. The dynamics label is "pronounced"
  exactly when the energy deviation is above 0.03, "medium" exactly when it is above 0.015
  and at most 0.03, and "flat" exactly when it is at most 0.015. The cutoffs are the same
  for every language.
\<close>

theorem prosody_label_thresholds:
  assumes "analyze_prosody E y sr lang = Inr p"
  shows "\<exists>pitch. pitch_track E y sr = Inr pitch \<and>
           monotony p = monotony_label lang (if 1 < length pitch then np_std pitch else 0) \<and>
           energy_rating p = dynamics_label lang (np_std (rms y)) \<and>
           (\<forall>v. (monotony_label lang v = lively_label lang \<longleftrightarrow> 60 < v) \<and>
                (monotony_label lang v = moderate_label lang \<longleftrightarrow> 30 < v \<and> v \<le> 60) \<and>
                (monotony_label lang v = monotonous_label lang \<longleftrightarrow> v \<le> 30)) \<and>
           (\<forall>v. (dynamics_label lang v = pronounced_label lang \<longleftrightarrow> 3 / 100 < v) \<and>
                (dynamics_label lang v = medium_label lang \<longleftrightarrow> 15 / 1000 < v \<and> v \<le> 3 / 100) \<and>
                (dynamics_label lang v = flat_label lang \<longleftrightarrow> v \<le> 15 / 1000))"
proof -
  from assms obtain pitch where pitch: "pitch_track E y sr = Inr pitch"
    by (cases "pitch_track E y sr") (simp_all add: analyze_prosody_def)
  with assms have "monotony p = monotony_label lang (if 1 < length pitch then np_std pitch else 0)"
    and "energy_rating p = dynamics_label lang (np_std (rms y))"
    by (auto simp: analyze_prosody_def Let_def)
  with pitch show ?thesis
    using monotony_iff [of lang] dynamics_iff [of lang] by blast
qed

theorem prosody_label_thresholds_witness:
  "pitch_track (demo_env demo_track) demo_wave 16000 = Inr [100, 160] \<and>
   monotony (prosody demo_metrics) = monotony_label (str ''en'') (np_std [100, 160]) \<and>
   energy_rating (prosody demo_metrics) = dynamics_label (str ''en'') (np_std (rms demo_wave)) \<and>
   np_std [100, 160] = 30 \<and> np_std (rms demo_wave) = 5 / 29 \<and>
   monotony (prosody demo_metrics) = monotonous_label (str ''en'') \<and>
   energy_rating (prosody demo_metrics) = pronounced_label (str ''en'')"
proof -
  from prosody_label_thresholds [OF analyze_prosody_demo] obtain pitch where
    p: "pitch_track (demo_env demo_track) demo_wave 16000 = Inr pitch"
    and m: "monotony (prosody demo_metrics) =
              monotony_label (str ''en'') (if 1 < length pitch then np_std pitch else 0)"
    and e: "energy_rating (prosody demo_metrics) = dynamics_label (str ''en'') (np_std (rms demo_wave))"
    by blast
  from p have "pitch = [100, 160]" by (simp add: pitch_track_demo)
  with m have "monotony (prosody demo_metrics) = monotony_label (str ''en'') (np_std [100, 160])"
    by simp
  moreover have "monotony (prosody demo_metrics) = monotonous_label (str ''en'')"
    "energy_rating (prosody demo_metrics) = pronounced_label (str ''en'')"
    by (simp_all add: demo_metrics_def monotonous_label_def pronounced_label_def)
  ultimately show ?thesis
    using e by (simp add: pitch_track_demo std_demo_pitch rms_demo_wave std_demo_energy)
qed

section \<open>The text structure analyzer\<close>

lemma long_sentences_filter:
  "long_sentences (analyze_text_quality E text lang) =
     filter (\<lambda>s. 20 < length (py_split s))
       (sent_tokenize E text (if lang = str ''ru'' then str ''russian'' else str ''english''))"
  by (simp add: analyze_text_quality_def Let_def)

lemma length_split_demo:
  "length (py_split demo_long) = 25" "length (py_split demo_twenty) = 20"
  by (simp_all add: py_split_def py_isspace_def demo_long_def demo_twenty_def str_def)

lemma sentences_demo:
  "sent_tokenize (demo_env t) (demo_long @ str '' '' @ demo_twenty) language
     = [demo_long, demo_twenty]"
  by (simp add: demo_env_def demo_long_def demo_twenty_def str_def)

text \<open>
  C9. The list \<open>long_sentences\<close> of \<open>analyze_text_quality\<close> consists of the sentences of
  the transcript, unchanged and in order, that have more than 20 words, a word being what
  \<open>split()\<close> separates: a sentence of 25 words is in the list, a sentence of exactly 20
  words is not.
\<close>

theorem long_sentences_over_20_words:
  "long_sentences (analyze_text_quality E text lang) =
     filter (\<lambda>s. 20 < length (py_split s))
       (sent_tokenize E text (if lang = str ''ru'' then str ''russian'' else str ''english'')) \<and>
   (\<forall>s \<in> set (sent_tokenize E text
                 (if lang = str ''ru'' then str ''russian'' else str ''english'')).
      (20 < length (py_split s) \<longrightarrow> s \<in> set (long_sentences (analyze_text_quality E text lang))) \<and>
      (length (py_split s) = 25 \<longrightarrow> s \<in> set (long_sentences (analyze_text_quality E text lang))) \<and>
      (length (py_split s) = 20 \<longrightarrow> s \<notin> set (long_sentences (analyze_text_quality E text lang))))"
  unfolding long_sentences_filter by auto

theorem long_sentences_over_20_words_witness:
  "sent_tokenize (demo_env []) (demo_long @ str '' '' @ demo_twenty) (str ''english'')
     = [demo_long, demo_twenty] \<and>
   length (py_split demo_long) = 25 \<and> length (py_split demo_twenty) = 20 \<and>
   long_sentences (analyze_text_quality (demo_env []) (demo_long @ str '' '' @ demo_twenty) (str ''en''))
     = [demo_long] \<and>
   demo_long \<noteq> demo_twenty"
proof -
  have en: "str ''en'' \<noteq> str ''ru''" by (simp add: str_def)
  have ne: "demo_long \<noteq> demo_twenty" by (simp add: demo_long_def demo_twenty_def str_def)
  from long_sentences_over_20_words
    [of "demo_env []" "demo_long @ str '' '' @ demo_twenty" "str ''en''"]
  have "long_sentences
          (analyze_text_quality (demo_env []) (demo_long @ str '' '' @ demo_twenty) (str ''en''))
        = filter (\<lambda>s. 20 < length (py_split s)) [demo_long, demo_twenty]"
    using en by (simp only: sentences_demo if_False) 
  then have "long_sentences
          (analyze_text_quality (demo_env []) (demo_long @ str '' '' @ demo_twenty) (str ''en''))
        = [demo_long]"
    by (simp add: length_split_demo)
  with ne sentences_demo [of "[]" "str ''english''"] length_split_demo show ?thesis
    by (intro conjI)
qed

section \<open>The user statistics\<close>

text \<open>
  C10. \<open>update_user_stats\<close> changes the entry of the given user only: the entry of every
  other key is as before, no other key is added, and the \<open>total_analyses\<close> of the user
  is one more than before (one, for a user without entry).
\<close>

theorem update_user_stats_frame:
  "(\<forall>k. k \<noteq> u \<longrightarrow> update_user_stats user_stats u analysis now k = user_stats k) \<and>
   dom (update_user_stats user_stats u analysis now) = insert u (dom user_stats) \<and>
   map_option total_analyses (update_user_stats user_stats u analysis now u) =
     Some ((case user_stats u of None \<Rightarrow> 0 | Some s \<Rightarrow> total_analyses s) + 1)"
proof (intro conjI allI impI)
  fix k :: int assume "k \<noteq> u"
  then show "update_user_stats user_stats u analysis now k = user_stats k"
    by (simp add: update_user_stats_def Let_def)
next
  show "dom (update_user_stats user_stats u analysis now) = insert u (dom user_stats)"
    by (simp add: update_user_stats_def Let_def)
next
  show "map_option total_analyses (update_user_stats user_stats u analysis now u) =
     Some ((case user_stats u of None \<Rightarrow> 0 | Some s \<Rightarrow> total_analyses s) + 1)"
    by (cases "user_stats u") (simp_all add: update_user_stats_def Let_def)
qed

theorem update_user_stats_frame_witness:
  "update_user_stats demo_store 9 demo_metrics (str ''2025-01-02 09:30'') 7 = demo_store 7 \<and>
   demo_store 7 = Some demo_stats \<and>
   map_option total_analyses
     (update_user_stats demo_store 9 demo_metrics (str ''2025-01-02 09:30'') 9) = Some 1 \<and>
   map_option total_analyses
     (update_user_stats demo_store 7 demo_metrics (str ''2025-01-02 09:30'') 7) = Some 4 \<and>
   update_user_stats demo_store 7 demo_metrics (str ''2025-01-02 09:30'') 9 = None"
proof -
  have s: "demo_store 7 = Some demo_stats" "demo_store 9 = None"
    by (simp_all add: demo_store_def)
  have t: "total_analyses demo_stats = 3" by (simp add: demo_stats_def)
  note a = update_user_stats_frame [of 9 demo_store demo_metrics "str ''2025-01-02 09:30''"]
  note b = update_user_stats_frame [of 7 demo_store demo_metrics "str ''2025-01-02 09:30''"]
  from a have "update_user_stats demo_store 9 demo_metrics (str ''2025-01-02 09:30'') 7 = demo_store 7"
    by simp
  moreover from a s have "map_option total_analyses
     (update_user_stats demo_store 9 demo_metrics (str ''2025-01-02 09:30'') 9) = Some 1"
    by simp
  moreover from b s t have "map_option total_analyses
     (update_user_stats demo_store 7 demo_metrics (str ''2025-01-02 09:30'') 7) = Some 4"
    by simp
  moreover from b s have "update_user_stats demo_store 7 demo_metrics (str ''2025-01-02 09:30'') 9 = None"
    by simp
  ultimately show ?thesis using s by simp
qed

end
